theory Spec2Isabelle
  imports Main "HOL-Library.Sublist"
begin

section \<open>Python text operations used by the script\<close>

text \<open>
  Strings are lists of 8-bit characters. The script only ever inspects ASCII text
  (a desktop name, property names printed by xfconf-query), so \<open>str.upper\<close> is
  modelled on the ASCII letters and is the identity elsewhere.
\<close>

definition upper_char :: "char \<Rightarrow> char" where
  "upper_char c =
     (case map_of (zip ''abcdefghijklmnopqrstuvwxyz'' ''ABCDEFGHIJKLMNOPQRSTUVWXYZ'') c of
        Some u \<Rightarrow> u
      | None \<Rightarrow> c)"

definition upper :: "string \<Rightarrow> string" where
  "upper s = map upper_char s"

text \<open>Python's \<open>needle in haystack\<close> on strings: a contiguous occurrence.\<close>

fun str_in :: "string \<Rightarrow> string \<Rightarrow> bool" where
  "str_in s [] = (s = [])"
| "str_in s (c # cs) = (prefix s (c # cs) \<or> str_in s cs)"

text \<open>\<open>sep.join(xs)\<close>.\<close>

fun join :: "string \<Rightarrow> string list \<Rightarrow> string" where
  "join sep [] = []"
| "join sep [x] = x"
| "join sep (x # y # ys) = x @ sep @ join sep (y # ys)"

text \<open>
  \<open>str.splitlines()\<close>: a line ends at LF, CR, CR LF, VT, FF, FS, GS, RS or NEL
  (the boundaries Python knows among the code points below 256); the terminator is dropped
  and a trailing terminator opens no empty last line.
\<close>

definition is_linebreak :: "char \<Rightarrow> bool" where
  "is_linebreak c \<longleftrightarrow>
     c \<in> set [CHR 0x0A, CHR 0x0D, CHR 0x0B, CHR 0x0C, CHR 0x1C, CHR 0x1D, CHR 0x1E, CHR 0x85]"

fun splitlines_from :: "string \<Rightarrow> string \<Rightarrow> string list" where
  "splitlines_from cur [] = (if cur = [] then [] else [cur])"
| "splitlines_from cur (c # cs) =
     (if c = CHR 0x0D then
        (case cs of
           d # ds \<Rightarrow> if d = CHR 0x0A then cur # splitlines_from [] ds
                     else cur # splitlines_from [] cs
         | [] \<Rightarrow> cur # splitlines_from [] cs)
      else if is_linebreak c then cur # splitlines_from [] cs
      else splitlines_from (cur @ [c]) cs)"

definition splitlines :: "string \<Rightarrow> string list" where
  "splitlines s = splitlines_from [] s"

text \<open>\<open>str(n)\<close> for an integer: decimal digits, with a minus sign below zero.\<close>

fun str_nat :: "nat \<Rightarrow> string" where
  "str_nat n =
     (if n < 10 then [''0123456789'' ! n]
      else str_nat (n div 10) @ [''0123456789'' ! (n mod 10)])"

definition str_int :: "int \<Rightarrow> string" where
  "str_int i = (if i < 0 then CHR ''-'' # str_nat (nat (- i)) else str_nat (nat i))"

declare str_nat.simps [simp del]

section \<open>The world outside the script\<close>

text \<open>
  A path is an absolute POSIX path, given by its components: \<open>IMAGE_PATH\<close> is built
  from \<open>Path.home()\<close>. \<open>path.parent\<close> drops the last component, and the root is
  its own parent.
\<close>

type_synonym path = "string list"

definition path_str :: "path \<Rightarrow> string" where
  "path_str p = (if p = [] then ''/'' else concat (map (\<lambda>c. ''/'' @ c) p))"

definition parent :: "path \<Rightarrow> path" where
  "parent p = butlast p"

text \<open>
  The exceptions the script can meet, all of them subclasses of Python's \<open>Exception\<close>.
  An exception raised by the world carries the text \<open>str(e)\<close> gives it.
  \<open>CalledProcessError\<close> carries \<open>cmd\<close>, \<open>returncode\<close>, \<open>stdout\<close> and
  \<open>stderr\<close>. \<open>HTTPError\<close> is a \<open>RequestException\<close>; every
  \<open>RequestException\<close> and \<open>FileNotFoundError\<close> is an \<open>OSError\<close>.
\<close>

datatype exn =
    FileNotFoundError string
  | CalledProcessError "string list" int string string
  | IndexError string
  | RuntimeError string
  | HTTPError string
  | RequestException string
  | OSError string
  | OtherException string

fun isinstance_RequestException :: "exn \<Rightarrow> bool" where
  "isinstance_RequestException (HTTPError m) = True"
| "isinstance_RequestException (RequestException m) = True"
| "isinstance_RequestException e = False"

fun isinstance_OSError :: "exn \<Rightarrow> bool" where
  "isinstance_OSError (FileNotFoundError m) = True"
| "isinstance_OSError (OSError m) = True"
| "isinstance_OSError (HTTPError m) = True"
| "isinstance_OSError (RequestException m) = True"
| "isinstance_OSError e = False"

text \<open>What the script does that the world can see, in order.\<close>

datatype event =
    Stdout string
  | Stderr string
  | EnvGet string
  | Which string
  | Exec "string list"
  | HttpGet string

datatype completed_process =
  CompletedProcess (returncode: int) (stdout: string) (stderr: string)

datatype response =
  Response (status_code: int) (reason: string) (url: string)
    (chunks: "string list") (stream_fault: "exn option")

text \<open>
  The host answers every question the script asks. \<open>popen\<close> is what starting the
  process and waiting for it gives, after the events so far: an exception, or the exit
  status with the captured output. \<open>called_process_error_str\<close> is the text
  \<open>str(e)\<close> of a \<open>CalledProcessError\<close> for a command and an exit status, which the
  library composes. \<open>resolve\<close> and \<open>is_file\<close> are pathlib's: the non-strict
  \<open>resolve\<close> gives the resolved path, \<open>is_file\<close> says whether a regular file is
  there, and either can raise instead (\<open>RuntimeError\<close> on a symbolic link loop,
  \<open>OSError\<close> on a name that is too long). \<open>mkdir_fault\<close> says after how many ancestors \<open>mkdir\<close> fails and
  with what; \<open>requests_get\<close> is the answer to the GET; \<open>write_fault n\<close> is the failure
  of the \<open>n\<close>-th write.
\<close>

record host =
  environ :: "string \<rightharpoonup> string"
  which :: "string \<Rightarrow> string option"
  is_file :: "path \<Rightarrow> exn + bool"
  resolve :: "path \<Rightarrow> exn + path"
  popen :: "event list \<Rightarrow> string list \<Rightarrow> exn + completed_process"
  called_process_error_str :: "string list \<Rightarrow> int \<Rightarrow> string"
  mkdir_fault :: "path \<Rightarrow> (nat \<times> exn) option"
  requests_get :: "string \<Rightarrow> exn + response"
  open_fault :: "path \<Rightarrow> exn option"
  write_fault :: "nat \<Rightarrow> exn option"

record fs =
  dirs :: "path set"
  files :: "path \<rightharpoonup> string"

fun exn_str :: "host \<Rightarrow> exn \<Rightarrow> string" where
  "exn_str h (FileNotFoundError m) = m"
| "exn_str h (CalledProcessError cmd rc out err) = called_process_error_str h cmd rc"
| "exn_str h (IndexError m) = m"
| "exn_str h (RuntimeError m) = m"
| "exn_str h (HTTPError m) = m"
| "exn_str h (RequestException m) = m"
| "exn_str h (OSError m) = m"
| "exn_str h (OtherException m) = m"

text \<open>
  \<open>subprocess.run(argv, check=..., capture_output=True, text=True)\<close>. An empty
  argument list fails with \<open>IndexError\<close> before anything is started; with
  \<open>check\<close>, a non-zero exit status is raised as \<open>CalledProcessError\<close>.
\<close>

definition subprocess_run ::
  "host \<Rightarrow> string list \<Rightarrow> bool \<Rightarrow> event list \<Rightarrow> (exn + completed_process) \<times> event list" where
  "subprocess_run h argv check tr =
     (if argv = [] then (Inl (IndexError ''list index out of range''), tr @ [Exec argv])
      else
        (case popen h tr argv of
           Inl e \<Rightarrow> (Inl e, tr @ [Exec argv])
         | Inr p \<Rightarrow>
             if check \<and> returncode p \<noteq> 0
             then (Inl (CalledProcessError argv (returncode p) (stdout p) (stderr p)),
                   tr @ [Exec argv])
             else (Inr p, tr @ [Exec argv])))"

section \<open>run\_command\<close>

definition run_command ::
  "host \<Rightarrow> string list \<Rightarrow> event list \<Rightarrow> (exn + bool) \<times> event list" where
  "run_command h command_list tr =
     (let tr1 = tr @ [Stdout (''   -> Executing: '' @ join '' '' command_list)] in
      case subprocess_run h command_list True tr1 of
        (Inr result, tr2) \<Rightarrow>
          (Inr True, tr2 @ [Stdout ''   -> Command executed successfully.''])
      | (Inl (FileNotFoundError m), tr2) \<Rightarrow>
          (case command_list of
             [] \<Rightarrow> (Inl (IndexError ''list index out of range''), tr2)
           | c # cs \<Rightarrow>
               (Inr False,
                tr2 @ [Stderr (''!! Error: Command not found: '' @ c @
                               ''. Is it installed and in PATH?'')]))
      | (Inl (CalledProcessError cmd rc out err), tr2) \<Rightarrow>
          (Inr False,
           tr2 @ [Stderr (''!! Error executing command: '' @ join '' '' command_list),
                  Stderr (''   Return Code: '' @ str_int rc),
                  Stderr (''   STDERR: '' @ err),
                  Stderr (''   STDOUT: '' @ out)])
      | (Inl e, tr2) \<Rightarrow>
          (Inr False,
           tr2 @ [Stderr (''!! An unexpected error occurred running the command: '' @
                          exn_str h e)]))"

section \<open>get\_desktop\_environment\<close>

datatype de = CINNAMON | MATE | XFCE

text \<open>Python's truth value of what \<open>shutil.which\<close> returns.\<close>

definition truthy :: "string option \<Rightarrow> bool" where
  "truthy r = (case r of None \<Rightarrow> False | Some p \<Rightarrow> p \<noteq> [])"

definition fallback_checks :: "host \<Rightarrow> event list \<Rightarrow> de option \<times> event list" where
  "fallback_checks h tr =
     (let tr1 = tr @ [Which ''cinnamon''] in
      if truthy (which h ''cinnamon'')
      then (Some CINNAMON,
            tr1 @ [Stdout ''-> Detected desktop environment: CINNAMON (fallback check)''])
      else
        let tr2 = tr1 @ [Which ''mate-session''] in
        if truthy (which h ''mate-session'')
        then (Some MATE,
              tr2 @ [Stdout ''-> Detected desktop environment: MATE (fallback check)''])
        else
          let tr3 = tr2 @ [Which ''xfce4-session''] in
          if truthy (which h ''xfce4-session'')
          then (Some XFCE,
                tr3 @ [Stdout ''-> Detected desktop environment: XFCE (fallback check)''])
          else (None,
                tr3 @ [Stderr ''!! Could not reliably detect desktop environment.'']))"

definition get_desktop_environment :: "host \<Rightarrow> event list \<Rightarrow> de option \<times> event list" where
  "get_desktop_environment h tr =
     (let desktop = upper (case environ h ''XDG_CURRENT_DESKTOP'' of
                             Some v \<Rightarrow> v | None \<Rightarrow> []);
          tr1 = tr @ [EnvGet ''XDG_CURRENT_DESKTOP'']
      in
        if desktop \<noteq> [] then
          (let tr2 = tr1 @ [Stdout (''-> Detected desktop environment: '' @ desktop)] in
           if str_in ''CINNAMON'' desktop then (Some CINNAMON, tr2)
           else if str_in ''MATE'' desktop then (Some MATE, tr2)
           else if str_in ''XFCE'' desktop then (Some XFCE, tr2)
           else fallback_checks h tr2)
        else fallback_checks h tr1)"

section \<open>set\_linux\_background\<close>

text \<open>The command lists the script builds.\<close>

definition cinnamon_command :: "string \<Rightarrow> string list" where
  "cinnamon_command abs_image_path =
     [''gsettings'', ''set'', ''org.cinnamon.desktop.background'', ''picture-uri'',
      ''file://'' @ abs_image_path]"

definition mate_command :: "string \<Rightarrow> string list" where
  "mate_command abs_image_path =
     [''gsettings'', ''set'', ''org.mate.background'', ''picture-filename'', abs_image_path]"

definition xfce_list_command :: "string list" where
  "xfce_list_command = [''xfconf-query'', ''-c'', ''xfce4-desktop'', ''-l'']"

definition xfce_set_command :: "string \<Rightarrow> string \<Rightarrow> string list" where
  "xfce_set_command abs_image_path prop =
     [''xfconf-query'', ''-c'', ''xfce4-desktop'', ''-p'', prop, ''-s'', abs_image_path]"

text \<open>The list comprehension that keeps the background properties.\<close>

definition image_props :: "string list \<Rightarrow> string list" where
  "image_props props = filter (\<lambda>p. str_in ''last-image'' p \<or> str_in ''image-path'' p) props"

text \<open>
  The \<open>for prop in image_props\<close> loop. It runs inside the \<open>try\<close>, so an exception
  out of \<open>run_command\<close> would end it.
\<close>

fun xfce_set_props ::
  "host \<Rightarrow> string \<Rightarrow> string list \<Rightarrow> event list \<Rightarrow> (exn + unit) \<times> event list" where
  "xfce_set_props h abs_image_path [] tr = (Inr (), tr)"
| "xfce_set_props h abs_image_path (prop # ps) tr =
     (let tr1 = tr @ [Stdout (''   -> Setting XFCE property: '' @ prop)] in
      case run_command h (xfce_set_command abs_image_path prop) tr1 of
        (Inl e, tr2) \<Rightarrow> (Inl e, tr2)
      | (Inr b, tr2) \<Rightarrow> xfce_set_props h abs_image_path ps tr2)"

text \<open>The three \<open>except\<close> clauses of the XFCE branch.\<close>

definition xfce_except :: "host \<Rightarrow> exn \<Rightarrow> event list \<Rightarrow> (exn + bool) \<times> event list" where
  "xfce_except h e tr =
     (case e of
        FileNotFoundError m \<Rightarrow>
          (Inr False,
           tr @ [Stderr (''!! Error: '' @ [CHR 0x27] @ ''xfconf-query'' @ [CHR 0x27] @
                         '' command not found. Is XFCE installed correctly?'')])
      | CalledProcessError cmd rc out err \<Rightarrow>
          (Inr False,
           tr @ [Stderr (''!! Error running xfconf-query to list properties: '' @ exn_str h e)])
      | _ \<Rightarrow>
          (Inr False,
           tr @ [Stderr (''!! An unexpected error occurred during XFCE setup: '' @ exn_str h e)]))"

definition xfce_branch :: "host \<Rightarrow> string \<Rightarrow> event list \<Rightarrow> (exn + bool) \<times> event list" where
  "xfce_branch h abs_image_path tr =
     (case subprocess_run h xfce_list_command True tr of
        (Inl e, tr1) \<Rightarrow> xfce_except h e tr1
      | (Inr result, tr1) \<Rightarrow>
          (let props = splitlines (stdout result) in
           if image_props props = []
           then (Inr False,
                 tr1 @ [Stderr ''!! Error: Could not find XFCE background properties via xfconf-query.''])
           else
             (case xfce_set_props h abs_image_path (image_props props) tr1 of
                (Inl e, tr2) \<Rightarrow> xfce_except h e tr2
              | (Inr u, tr2) \<Rightarrow> (Inr True, tr2))))"

text \<open>The end of the function, reached with the command of Cinnamon or MATE.\<close>

definition execute_command :: "host \<Rightarrow> string list \<Rightarrow> event list \<Rightarrow> (exn + bool) \<times> event list" where
  "execute_command h command tr =
     (if command \<noteq> [] then run_command h command tr else (Inr False, tr))"

text \<open>
  \<open>resolve\<close> and \<open>is_file\<close> are called before the first \<open>try\<close>: what they raise
  leaves the function.
\<close>

definition set_linux_background :: "host \<Rightarrow> path \<Rightarrow> event list \<Rightarrow> (exn + bool) \<times> event list" where
  "set_linux_background h image_path tr =
     (let tr1 = tr @ [Stdout (''-> Attempting to set background to: '' @ path_str image_path)] in
      case resolve h image_path of
        Inl e \<Rightarrow> (Inl e, tr1)
      | Inr resolved \<Rightarrow>
          (let abs_image_path = path_str resolved in
           case is_file h image_path of
             Inl e \<Rightarrow> (Inl e, tr1)
           | Inr False \<Rightarrow>
               (Inr False,
                tr1 @ [Stderr (''!! Error: Image file not found at '' @ abs_image_path)])
           | Inr True \<Rightarrow>
               (case get_desktop_environment h tr1 of
                  (Some CINNAMON, tr2) \<Rightarrow> execute_command h (cinnamon_command abs_image_path) tr2
                | (Some MATE, tr2) \<Rightarrow> execute_command h (mate_command abs_image_path) tr2
                | (Some XFCE, tr2) \<Rightarrow> xfce_branch h abs_image_path tr2
                | (None, tr2) \<Rightarrow>
                    (Inr False,
                     tr2 @ [Stderr ''!! Error: Unsupported or undetected desktop environment: None'',
                            Stderr ''   Please manually set the background using your desktop's settings tool.'']))))"

section \<open>download\_image\<close>

text \<open>
  \<open>mkdir(parents=True, exist_ok=True)\<close>: the directory and its missing ancestors, or
  the first few of them before the failure.
\<close>

definition mkdir_parents :: "host \<Rightarrow> path \<Rightarrow> fs \<Rightarrow> (exn + unit) \<times> fs" where
  "mkdir_parents h d s =
     (case mkdir_fault h d of
        Some (k, e) \<Rightarrow> (Inl e, s\<lparr>dirs := dirs s \<union> set (take k (prefixes d))\<rparr>)
      | None \<Rightarrow> (Inr (), s\<lparr>dirs := dirs s \<union> set (prefixes d)\<rparr>))"

text \<open>
  \<open>Response.raise_for_status()\<close> of the requests library: an \<open>HTTPError\<close> for the
  statuses 400 to 599, nothing otherwise.
\<close>

definition raise_for_status :: "response \<Rightarrow> exn option" where
  "raise_for_status r =
     (if 400 \<le> status_code r \<and> status_code r < 500
      then Some (HTTPError (str_int (status_code r) @ '' Client Error: '' @ reason r @
                            '' for url: '' @ url r))
      else if 500 \<le> status_code r \<and> status_code r < 600
      then Some (HTTPError (str_int (status_code r) @ '' Server Error: '' @ reason r @
                            '' for url: '' @ url r))
      else None)"

text \<open>\<open>open(save_path, 'wb')\<close>: the file is created, or emptied.\<close>

definition open_wb :: "host \<Rightarrow> path \<Rightarrow> fs \<Rightarrow> (exn + unit) \<times> fs" where
  "open_wb h p s =
     (case open_fault h p of
        Some e \<Rightarrow> (Inl e, s)
      | None \<Rightarrow> (Inr (), s\<lparr>files := (files s)(p \<mapsto> [])\<rparr>))"

text \<open>The loop over \<open>iter_content\<close>: the \<open>n\<close>-th write appends its chunk, or fails.\<close>

fun write_chunks :: "host \<Rightarrow> path \<Rightarrow> nat \<Rightarrow> string list \<Rightarrow> fs \<Rightarrow> (exn + unit) \<times> fs" where
  "write_chunks h p n [] s = (Inr (), s)"
| "write_chunks h p n (c # cs) s =
     (case write_fault h n of
        Some e \<Rightarrow> (Inl e, s)
      | None \<Rightarrow>
          write_chunks h p (Suc n) cs
            (s\<lparr>files := (files s)(p \<mapsto> (case files s p of Some old \<Rightarrow> old | None \<Rightarrow> []) @ c)\<rparr>))"

text \<open>The body of the \<open>try\<close>.\<close>

definition download_body ::
  "host \<Rightarrow> string \<Rightarrow> path \<Rightarrow> fs \<Rightarrow> event list \<Rightarrow> (exn + unit) \<times> fs \<times> event list" where
  "download_body h image_url save_path s tr =
     (case mkdir_parents h (parent save_path) s of
        (Inl e, s1) \<Rightarrow> (Inl e, s1, tr)
      | (Inr u, s1) \<Rightarrow>
          (let tr1 = tr @ [HttpGet image_url] in
           case requests_get h image_url of
             Inl e \<Rightarrow> (Inl e, s1, tr1)
           | Inr response \<Rightarrow>
               (case raise_for_status response of
                  Some e \<Rightarrow> (Inl e, s1, tr1)
                | None \<Rightarrow>
                    (case open_wb h save_path s1 of
                       (Inl e, s2) \<Rightarrow> (Inl e, s2, tr1)
                     | (Inr u, s2) \<Rightarrow>
                         (case write_chunks h save_path 0 (chunks response) s2 of
                            (Inl e, s3) \<Rightarrow> (Inl e, s3, tr1)
                          | (Inr u, s3) \<Rightarrow>
                              (case stream_fault response of
                                 Some e \<Rightarrow> (Inl e, s3, tr1)
                               | None \<Rightarrow>
                                   (Inr (), s3,
                                    tr1 @ [Stdout (''-> Image successfully downloaded and saved to: '' @
                                                   path_str save_path)])))))))"

text \<open>The three \<open>except\<close> clauses, in the order of the source.\<close>

definition download_except :: "host \<Rightarrow> exn \<Rightarrow> string" where
  "download_except h e =
     (if isinstance_RequestException e then ''!! Error downloading image: '' @ exn_str h e
      else if isinstance_OSError e then ''!! Error saving image file: '' @ exn_str h e
      else ''!! An unexpected error occurred during download: '' @ exn_str h e)"

definition download_image ::
  "host \<Rightarrow> string \<Rightarrow> path \<Rightarrow> fs \<Rightarrow> event list \<Rightarrow> (exn + bool) \<times> fs \<times> event list" where
  "download_image h image_url save_path s tr =
     (let tr1 = tr @ [Stdout (''-> Attempting to download image from: '' @ image_url)] in
      case download_body h image_url save_path s tr1 of
        (Inr u, s', tr2) \<Rightarrow> (Inr True, s', tr2)
      | (Inl e, s', tr2) \<Rightarrow> (Inr False, s', tr2 @ [Stderr (download_except h e)]))"

text \<open>The commands a run has started, in order.\<close>

fun execs :: "event list \<Rightarrow> string list list" where
  "execs [] = []"
| "execs (Exec argv # es) = argv # execs es"
| "execs (e # es) = execs es"

text \<open>The executables a run has looked up on the search path, in order.\<close>

fun probes :: "event list \<Rightarrow> string list" where
  "probes [] = []"
| "probes (Which n # es) = n # probes es"
| "probes (e # es) = probes es"

text \<open>The environment variables a run has read, in order.\<close>

fun env_reads :: "event list \<Rightarrow> string list" where
  "env_reads [] = []"
| "env_reads (EnvGet n # es) = n # env_reads es"
| "env_reads (e # es) = env_reads es"

section \<open>Notions of the specification\<close>

text \<open>
  The specification's "matches case-insensitively against a substring": the value has a
  contiguous part that spells the name in some mix of upper and lower case. It is stated
  here in the specification's words, to be compared with the test the script makes
  (\<open>name in value.upper()\<close>).
\<close>

definition mentions :: "string \<Rightarrow> string \<Rightarrow> bool" where
  "mentions v name \<longleftrightarrow> (\<exists>w. sublist w v \<and> upper w = upper name)"

section \<open>A concrete host\<close>

text \<open>
  A host with no desktop variable and no session executable, on which every file exists,
  every command exits with status 0 and prints nothing, and the image server answers 200
  with an empty body.
\<close>

definition host0 :: host where
  "host0 =
     \<lparr>environ = Map.empty, which = (\<lambda>n. None), is_file = (\<lambda>p. Inr True), resolve = (\<lambda>p. Inr p),
      popen = (\<lambda>tr argv. Inr (CompletedProcess 0 [] [])),
      called_process_error_str = (\<lambda>c r. []),
      mkdir_fault = (\<lambda>p. None), requests_get = (\<lambda>u. Inr (Response 200 ''OK'' u [] None)),
      open_fault = (\<lambda>p. None), write_fault = (\<lambda>n. None)\<rparr>"

text \<open>
  An XFCE host whose configuration lists two background properties among three lines and
  on which every command but the listing exits with status 1; and one whose
  configuration lists no background property.
\<close>

definition host_xfce :: host where
  "host_xfce =
     host0\<lparr>environ := [''XDG_CURRENT_DESKTOP'' \<mapsto> ''XFCE''],
           popen := (\<lambda>tr argv.
             if argv = xfce_list_command
             then Inr (CompletedProcess 0
                    (''/backdrop/screen0/monitor0/last-image'' @ [CHR 0x0A] @
                     ''/backdrop/single-workspace-mode'' @ [CHR 0x0A] @
                     ''/backdrop/screen0/monitor1/image-path'' @ [CHR 0x0A]) [])
             else Inr (CompletedProcess 1 [] ''failed''))\<rparr>"

definition host_xfce_bare :: host where
  "host_xfce_bare =
     host0\<lparr>environ := [''XDG_CURRENT_DESKTOP'' \<mapsto> ''XFCE''],
           popen := (\<lambda>tr argv.
             Inr (CompletedProcess 0 (''/backdrop/single-workspace-mode'' @ [CHR 0x0A]) []))\<rparr>"

text \<open>
  A host on which the image path runs into a symbolic link loop: no file is there, and
  \<open>resolve\<close> raises.
\<close>

definition host_loop :: host where
  "host_loop =
     host0\<lparr>resolve := \<lambda>p. Inl (RuntimeError ''Symlink loop from /home/u/.cache/noaa_wallpaper''),
           is_file := \<lambda>p. Inr False\<rparr>"

text \<open>
  The path of the cached image under a home directory; a file system that holds the image
  of an earlier run; and one that has the home directory only.
\<close>

definition cache_path :: path where
  "cache_path = [''home'', ''u'', ''.cache'', ''noaa_wallpaper'', ''noaa_latest_background.jpg'']"

definition fs0 :: fs where
  "fs0 =
     \<lparr>dirs = {[], [''home''], [''home'', ''u''], [''home'', ''u'', ''.cache''],
              [''home'', ''u'', ''.cache'', ''noaa_wallpaper'']},
      files = [cache_path \<mapsto> ''JPEG'']\<rparr>"

definition fs_fresh :: fs where
  "fs_fresh = \<lparr>dirs = {[], [''home''], [''home'', ''u'']}, files = Map.empty\<rparr>"

section \<open>Facts about the text operations\<close>

lemma str_in_iff_sublist: "str_in s t \<longleftrightarrow> sublist s t"
  by (induction t) (auto simp: sublist_Cons_right)

lemma sublist_map_iff: "sublist s (map f v) \<longleftrightarrow> (\<exists>w. sublist w v \<and> map f w = s)"
proof
  assume "sublist s (map f v)"
  then obtain ps ss where "map f v = ps @ s @ ss"
    by (auto simp: sublist_def)
  then obtain us ws vs where "v = us @ ws @ vs" "s = map f ws"
    by (auto simp: map_eq_append_conv append_eq_map_conv)
  then show "\<exists>w. sublist w v \<and> map f w = s"
    by auto
next
  assume "\<exists>w. sublist w v \<and> map f w = s"
  then show "sublist s (map f v)"
    by (auto intro: map_mono_sublist)
qed

lemma mentions_iff [code]: "mentions v name \<longleftrightarrow> str_in (upper name) (upper v)"
  by (simp add: mentions_def str_in_iff_sublist upper_def sublist_map_iff)

lemma execs_append: "execs (xs @ ys) = execs xs @ execs ys"
  by (induction xs rule: execs.induct) simp_all

lemma probes_append: "probes (xs @ ys) = probes xs @ probes ys"
  by (induction xs rule: probes.induct) simp_all

lemma env_reads_append: "env_reads (xs @ ys) = env_reads xs @ env_reads ys"
  by (induction xs rule: env_reads.induct) simp_all

lemma upper_names:
  "upper ''CINNAMON'' = ''CINNAMON''" "upper ''MATE'' = ''MATE''" "upper ''XFCE'' = ''XFCE''"
  by (simp_all add: upper_def upper_char_def)

lemma str_in_nonempty: "str_in s t \<Longrightarrow> s \<noteq> [] \<Longrightarrow> t \<noteq> []"
  by (cases t) auto

lemma detect_by_variable:
  assumes "environ h ''XDG_CURRENT_DESKTOP'' = Some v"
  shows "mentions v ''CINNAMON'' \<Longrightarrow> fst (get_desktop_environment h tr) = Some CINNAMON"
    and "\<not> mentions v ''CINNAMON'' \<Longrightarrow> mentions v ''MATE'' \<Longrightarrow>
         fst (get_desktop_environment h tr) = Some MATE"
    and "\<not> mentions v ''CINNAMON'' \<Longrightarrow> \<not> mentions v ''MATE'' \<Longrightarrow> mentions v ''XFCE'' \<Longrightarrow>
         fst (get_desktop_environment h tr) = Some XFCE"
  using assms
  by (auto simp: get_desktop_environment_def Let_def mentions_iff upper_names
           dest: str_in_nonempty)

lemma fallback_checks_result:
  "fst (fallback_checks h tr) =
     (if truthy (which h ''cinnamon'') then Some CINNAMON
      else if truthy (which h ''mate-session'') then Some MATE
      else if truthy (which h ''xfce4-session'') then Some XFCE
      else None)"
  by (simp add: fallback_checks_def Let_def)

lemma fallback_checks_probes:
  "probes (snd (fallback_checks h tr)) =
     probes tr @
     (if truthy (which h ''cinnamon'') then [''cinnamon'']
      else if truthy (which h ''mate-session'') then [''cinnamon'', ''mate-session'']
      else [''cinnamon'', ''mate-session'', ''xfce4-session''])"
  by (simp add: fallback_checks_def Let_def probes_append)

lemma fallback_checks_unknown:
  "fst (fallback_checks h tr) = None \<Longrightarrow>
   snd (fallback_checks h tr) =
     tr @ [Which ''cinnamon'', Which ''mate-session'', Which ''xfce4-session'',
           Stderr ''!! Could not reliably detect desktop environment.'']"
  by (simp add: fallback_checks_def Let_def split: if_splits)

lemma upper_Nil_iff: "upper v = [] \<longleftrightarrow> v = []"
  by (simp add: upper_def)

lemma detect_by_fallback:
  assumes "environ h ''XDG_CURRENT_DESKTOP'' = None \<or>
           (\<exists>v. environ h ''XDG_CURRENT_DESKTOP'' = Some v \<and>
                \<not> mentions v ''CINNAMON'' \<and> \<not> mentions v ''MATE'' \<and> \<not> mentions v ''XFCE'')"
  shows "get_desktop_environment h tr =
           fallback_checks h
             (tr @ EnvGet ''XDG_CURRENT_DESKTOP'' #
                (case environ h ''XDG_CURRENT_DESKTOP'' of
                   None \<Rightarrow> []
                 | Some v \<Rightarrow> if v = [] then []
                            else [Stdout (''-> Detected desktop environment: '' @ upper v)]))"
  using assms
  by (auto simp: get_desktop_environment_def Let_def mentions_iff upper_names upper_Nil_iff
           split: option.splits)

lemma mentions_X_Cinnamon: "mentions ''X-Cinnamon'' ''CINNAMON''"
  by (simp add: mentions_iff upper_def upper_char_def)

section \<open>Facts about the commands\<close>

lemma subprocess_run_trace: "snd (subprocess_run h argv check tr) = tr @ [Exec argv]"
  by (simp add: subprocess_run_def split: sum.splits)

lemma subprocess_run_not_found:
  "fst (subprocess_run h argv check tr) = Inl (FileNotFoundError m) \<Longrightarrow> argv \<noteq> []"
  by (auto simp: subprocess_run_def)

lemma run_command_result:
  "fst (run_command h argv tr) =
     Inr (argv \<noteq> [] \<and>
          (case popen h (tr @ [Stdout (''   -> Executing: '' @ join '' '' argv)]) argv of
             Inl e \<Rightarrow> False
           | Inr p \<Rightarrow> returncode p = 0))"
  by (cases argv)
     (auto simp: run_command_def subprocess_run_def Let_def split: sum.splits exn.splits)

lemma run_command_execs: "execs (snd (run_command h argv tr)) = execs tr @ [argv]"
proof (cases "subprocess_run h argv True (tr @ [Stdout (''   -> Executing: '' @ join '' '' argv)])")
  case (Pair r tr2)
  with subprocess_run_trace [of h argv True "tr @ [Stdout (''   -> Executing: '' @ join '' '' argv)]"]
  have tr2: "tr2 = tr @ [Stdout (''   -> Executing: '' @ join '' '' argv), Exec argv]"
    by simp
  show ?thesis
  proof (cases r)
    case (Inr p)
    with Pair tr2 show ?thesis by (simp add: run_command_def execs_append)
  next
    case (Inl e)
    with Pair tr2 show ?thesis
      by (cases e; cases argv) (simp_all add: run_command_def execs_append)
  qed
qed

lemma get_desktop_environment_execs: "execs (snd (get_desktop_environment h tr)) = execs tr"
  by (simp add: get_desktop_environment_def fallback_checks_def Let_def execs_append)

lemma xfce_set_props_runs:
  "fst (xfce_set_props h a ps tr) = Inr () \<and>
   execs (snd (xfce_set_props h a ps tr)) = execs tr @ map (xfce_set_command a) ps"
proof (induction ps arbitrary: tr)
  case Nil
  show ?case by simp
next
  case (Cons q ps)
  let ?tr1 = "tr @ [Stdout (''   -> Setting XFCE property: '' @ q)]"
  obtain r tr2 where rc: "run_command h (xfce_set_command a q) ?tr1 = (r, tr2)"
    by (cases "run_command h (xfce_set_command a q) ?tr1")
  from run_command_result [of h "xfce_set_command a q" ?tr1] rc
  obtain b where r: "r = Inr b"
    by simp
  from run_command_execs [of h "xfce_set_command a q" ?tr1] rc
  have tr2: "execs tr2 = execs tr @ [xfce_set_command a q]"
    by (simp add: execs_append)
  from rc r have step: "xfce_set_props h a (q # ps) tr = xfce_set_props h a ps tr2"
    by simp
  show ?case
    unfolding step using Cons.IH [of tr2] by (simp add: tr2)
qed

lemma xfce_branch_listed:
  assumes "popen h tr xfce_list_command = Inr cp" and "returncode cp = 0"
  shows "image_props (splitlines (stdout cp)) \<noteq> [] \<Longrightarrow>
           fst (xfce_branch h a tr) = Inr True \<and>
           execs (snd (xfce_branch h a tr)) =
             execs tr @ xfce_list_command # map (xfce_set_command a) (image_props (splitlines (stdout cp)))"
    and "image_props (splitlines (stdout cp)) = [] \<Longrightarrow>
           xfce_branch h a tr =
             (Inr False,
              tr @ [Exec xfce_list_command,
                    Stderr ''!! Error: Could not find XFCE background properties via xfconf-query.''])"
proof -
  have run: "subprocess_run h xfce_list_command True tr = (Inr cp, tr @ [Exec xfce_list_command])"
    using assms by (simp add: subprocess_run_def) (simp add: xfce_list_command_def)
  {
    assume ne: "image_props (splitlines (stdout cp)) \<noteq> []"
    let ?ps = "image_props (splitlines (stdout cp))"
    let ?tr1 = "tr @ [Exec xfce_list_command]"
    obtain r tr2 where loop: "xfce_set_props h a ?ps ?tr1 = (r, tr2)"
      by (cases "xfce_set_props h a ?ps ?tr1")
    with xfce_set_props_runs [of h a ?ps ?tr1]
    have "r = Inr ()" and "execs tr2 = execs tr @ xfce_list_command # map (xfce_set_command a) ?ps"
      by (simp_all add: execs_append)
    with run ne loop
    show "fst (xfce_branch h a tr) = Inr True \<and>
           execs (snd (xfce_branch h a tr)) =
             execs tr @ xfce_list_command # map (xfce_set_command a) ?ps"
      by (simp add: xfce_branch_def)
  }
  {
    assume "image_props (splitlines (stdout cp)) = []"
    with run show "xfce_branch h a tr =
             (Inr False,
              tr @ [Exec xfce_list_command,
                    Stderr ''!! Error: Could not find XFCE background properties via xfconf-query.''])"
      by (simp add: xfce_branch_def)
  }
qed

lemma image_props_contains:
  "image_props props = filter (\<lambda>q. sublist ''last-image'' q \<or> sublist ''image-path'' q) props"
  by (simp add: image_props_def str_in_iff_sublist)

lemma path_str_absolute: "\<exists>rest. path_str p = CHR ''/'' # rest"
  by (cases p) (simp_all add: path_str_def)

lemma run_command_extends: "snd (run_command h argv tr) \<noteq> tr"
proof
  assume "snd (run_command h argv tr) = tr"
  then have "execs (snd (run_command h argv tr)) = execs tr"
    by simp
  then show False
    by (simp add: run_command_execs)
qed

lemma set_linux_background_gsettings:
  assumes "resolve h image_path = Inr q \<and> is_file h image_path = Inr True"
  shows "get_desktop_environment h
           (tr @ [Stdout (''-> Attempting to set background to: '' @ path_str image_path)]) =
         (Some CINNAMON, tr') \<Longrightarrow>
         set_linux_background h image_path tr =
           run_command h (cinnamon_command (path_str q)) tr'"
    and "get_desktop_environment h
           (tr @ [Stdout (''-> Attempting to set background to: '' @ path_str image_path)]) =
         (Some MATE, tr') \<Longrightarrow>
         set_linux_background h image_path tr =
           run_command h (mate_command (path_str q)) tr'"
  using assms
  by (simp_all add: set_linux_background_def execute_command_def cinnamon_command_def
        mate_command_def)

lemmas eval_defs =
  set_linux_background_def get_desktop_environment_def fallback_checks_def xfce_branch_def
  run_command_def subprocess_run_def execute_command_def
  xfce_list_command_def xfce_set_command_def cinnamon_command_def mate_command_def
  image_props_def splitlines_def is_linebreak_def
  host0_def truthy_def upper_def upper_char_def path_str_def Let_def

section \<open>Facts about the download\<close>

lemma raise_for_status_error:
  "400 \<le> status_code r \<Longrightarrow> status_code r < 600 \<Longrightarrow> \<exists>m. raise_for_status r = Some (HTTPError m)"
  by (simp add: raise_for_status_def)

lemma download_body_error_status:
  assumes "mkdir_fault h (parent save_path) = None" and "requests_get h image_url = Inr r"
    and "raise_for_status r = Some e"
  shows "download_body h image_url save_path s tr =
           (Inl e, s\<lparr>dirs := dirs s \<union> set (prefixes (parent save_path))\<rparr>, tr @ [HttpGet image_url])"
  using assms by (simp add: download_body_def mkdir_parents_def)

lemma download_image_handles:
  "download_image h image_url save_path s tr =
     (case download_body h image_url save_path s
             (tr @ [Stdout (''-> Attempting to download image from: '' @ image_url)]) of
        (Inr u, s', tr') \<Rightarrow> (Inr True, s', tr')
      | (Inl e, s', tr') \<Rightarrow> (Inr False, s', tr' @ [Stderr (download_except h e)]))"
  by (simp add: download_image_def)

lemma write_chunks_iff:
  "fst (write_chunks h p n cs s) = Inr () \<longleftrightarrow> (\<forall>i<length cs. write_fault h (n + i) = None)"
proof (induction cs arbitrary: n s)
  case Nil
  show ?case by simp
next
  case (Cons c cs)
  show ?case
  proof (cases "write_fault h n")
    case (Some e)
    then have "\<not> (\<forall>i<length (c # cs). write_fault h (n + i) = None)"
      by (auto intro: exI [of _ 0])
    with Some show ?thesis by simp
  next
    case None
    have "(\<forall>i<length (c # cs). write_fault h (n + i) = None) \<longleftrightarrow>
          (\<forall>i<length cs. write_fault h (Suc n + i) = None)"
      using None by (auto simp: less_Suc_eq_0_disj)
    with None Cons.IH [of "Suc n"] show ?thesis by simp
  qed
qed

lemma write_chunks_first_fault:
  "i < length cs \<Longrightarrow> write_fault h (n + i) = Some e \<Longrightarrow>
   (\<forall>j<i. write_fault h (n + j) = None) \<Longrightarrow> fst (write_chunks h p n cs s) = Inl e"
proof (induction cs arbitrary: n s i)
  case Nil
  then show ?case by simp
next
  case (Cons c cs)
  show ?case
  proof (cases i)
    case 0
    with Cons.prems show ?thesis by simp
  next
    case (Suc k)
    with Cons.prems have "write_fault h n = None"
      by (auto dest: spec [of _ 0])
    moreover from Suc Cons.prems have "fst (write_chunks h p (Suc n) cs s') = Inl e" for s'
      by (intro Cons.IH [of k "Suc n"]) (auto dest: spec [of _ "Suc _"])
    ultimately show ?thesis by simp
  qed
qed

lemma raise_for_status_None_iff:
  "raise_for_status r = None \<longleftrightarrow> status_code r < 400 \<or> 600 \<le> status_code r"
  by (auto simp: raise_for_status_def)

lemma download_body_returns_iff:
  "fst (download_body h image_url save_path s tr) = Inr () \<longleftrightarrow>
     mkdir_fault h (parent save_path) = None \<and>
     (\<exists>r. requests_get h image_url = Inr r \<and> raise_for_status r = None \<and>
          open_fault h save_path = None \<and>
          (\<forall>i<length (chunks r). write_fault h i = None) \<and> stream_fault r = None)"
proof (cases "mkdir_fault h (parent save_path)")
  case (Some a)
  then show ?thesis
    by (cases a) (simp add: download_body_def mkdir_parents_def)
next
  case None
  show ?thesis
  proof (cases "requests_get h image_url")
    case (Inl e)
    with None show ?thesis
      by (simp add: download_body_def mkdir_parents_def)
  next
    case (Inr r)
    show ?thesis
    proof (cases "raise_for_status r = None \<and> open_fault h save_path = None")
      case False
      with None Inr show ?thesis
        by (auto simp: download_body_def mkdir_parents_def open_wb_def Let_def
                 split: option.splits)
    next
      case True
      let ?s2 = "s\<lparr>dirs := dirs s \<union> set (prefixes (parent save_path)),
                    files := (files s)(save_path \<mapsto> [])\<rparr>"
      obtain w s3 where w: "write_chunks h save_path 0 (chunks r) ?s2 = (w, s3)"
        by (cases "write_chunks h save_path 0 (chunks r) ?s2")
      with write_chunks_iff [of h save_path 0 "chunks r" ?s2]
      have "w = Inr () \<longleftrightarrow> (\<forall>i<length (chunks r). write_fault h i = None)"
        by simp
      with None Inr True w show ?thesis
        by (cases w)
           (auto simp: download_body_def mkdir_parents_def open_wb_def Let_def
                 split: option.splits)
    qed
  qed
qed

lemmas fetch_defs =
  download_image_def download_body_def download_except_def mkdir_parents_def open_wb_def
  raise_for_status_def parent_def path_str_def cache_path_def fs0_def fs_fresh_def host0_def
  str_int_def str_nat.simps Let_def

section \<open>The claims\<close>

text \<open>
  C1, as the script has it. When the cached image is not a file at the given path and the
  two pathlib calls return, the setter returns failure at once: the run adds its
  announcement and the error line and nothing else. Whenever the file test does not say
  that the file is there (it says no, or one of the two calls raises), no environment
  variable is read, no executable is looked up and no command is started.
\<close>

theorem missing_file_stops_before_detection:
  "(resolve h image_path = Inr q \<and> is_file h image_path = Inr False \<longrightarrow>
      set_linux_background h image_path tr =
        (Inr False,
         tr @ [Stdout (''-> Attempting to set background to: '' @ path_str image_path),
               Stderr (''!! Error: Image file not found at '' @ path_str q)])) \<and>
   ((\<exists>e. resolve h image_path = Inl e) \<or> is_file h image_path \<noteq> Inr True \<longrightarrow>
      env_reads (snd (set_linux_background h image_path tr)) = env_reads tr \<and>
      probes (snd (set_linux_background h image_path tr)) = probes tr \<and>
      execs (snd (set_linux_background h image_path tr)) = execs tr)"
proof (intro conjI impI)
  assume "resolve h image_path = Inr q \<and> is_file h image_path = Inr False"
  then show "set_linux_background h image_path tr =
        (Inr False,
         tr @ [Stdout (''-> Attempting to set background to: '' @ path_str image_path),
               Stderr (''!! Error: Image file not found at '' @ path_str q)])"
    by (simp add: set_linux_background_def)
next
  assume stop: "(\<exists>e. resolve h image_path = Inl e) \<or> is_file h image_path \<noteq> Inr True"
  let ?tr1 = "tr @ [Stdout (''-> Attempting to set background to: '' @ path_str image_path)]"
  from stop consider
      (resolve_raises) e where "resolve h image_path = Inl e"
    | (is_file_raises) p e where "resolve h image_path = Inr p" "is_file h image_path = Inl e"
    | (no_file) p where "resolve h image_path = Inr p" "is_file h image_path = Inr False"
    by (cases "resolve h image_path"; cases "is_file h image_path") auto
  then have "\<exists>r m. set_linux_background h image_path tr = (r, ?tr1 @ m) \<and>
      (m = [] \<or> (\<exists>t. m = [Stderr t]))"
    by cases (simp_all add: set_linux_background_def Let_def)
  then obtain r m where run: "set_linux_background h image_path tr = (r, ?tr1 @ m)"
    and m: "m = [] \<or> (\<exists>t. m = [Stderr t])"
    by blast
  from m have "env_reads m = []" "probes m = []" "execs m = []"
    by auto
  with run show "env_reads (snd (set_linux_background h image_path tr)) = env_reads tr"
    and "probes (snd (set_linux_background h image_path tr)) = probes tr"
    and "execs (snd (set_linux_background h image_path tr)) = execs tr"
    by (simp_all add: env_reads_append probes_append execs_append)
qed

theorem missing_file_stops_before_detection_witness:
  "set_linux_background (host0\<lparr>is_file := \<lambda>p. Inr False\<rparr>) [''tmp'', ''x.jpg''] [] =
     (Inr False,
      [Stdout ''-> Attempting to set background to: /tmp/x.jpg'',
       Stderr ''!! Error: Image file not found at /tmp/x.jpg'']) \<and>
   env_reads (snd (set_linux_background host_loop cache_path [])) = [] \<and>
   probes (snd (set_linux_background host_loop cache_path [])) = [] \<and>
   execs (snd (set_linux_background host_loop cache_path [])) = [] \<and>
   execs (snd (set_linux_background
                 (host0\<lparr>is_file := \<lambda>p. Inl (OSError ''[Errno 36] File name too long'')\<rparr>)
                 cache_path [])) = []"
  using
    missing_file_stops_before_detection
      [where h = "host0\<lparr>is_file := \<lambda>p. Inr False\<rparr>" and image_path = "[''tmp'', ''x.jpg'']"
         and q = "[''tmp'', ''x.jpg'']" and tr = "[]"]
    missing_file_stops_before_detection
      [where h = host_loop and image_path = cache_path and q = cache_path and tr = "[]"]
    missing_file_stops_before_detection
      [where h = "host0\<lparr>is_file := \<lambda>p. Inl (OSError ''[Errno 36] File name too long'')\<rparr>"
         and image_path = cache_path and q = cache_path and tr = "[]"]
  by (simp add: host_loop_def host0_def path_str_def)

text \<open>
  C1 as stated fails where pathlib raises: on a symbolic link loop no file is at the path,
  and the setter ends with the \<open>RuntimeError\<close> of \<open>resolve\<close> after its announcement,
  not with a failure result.
\<close>

theorem symlink_loop_raises_out_of_setter:
  "is_file host_loop cache_path = Inr False \<and>
   set_linux_background host_loop cache_path [] =
     (Inl (RuntimeError ''Symlink loop from /home/u/.cache/noaa_wallpaper''),
      [Stdout ''-> Attempting to set background to: /home/u/.cache/noaa_wallpaper/noaa_latest_background.jpg''])"
  by (simp add: set_linux_background_def host_loop_def host0_def path_str_def cache_path_def)

text \<open>
  C4. Detection looks for CINNAMON, then MATE, then XFCE in the desktop variable, whatever
  the letter case (\<open>X-Cinnamon\<close> gives CINNAMON). With the variable absent, empty or
  naming none of them, it looks up \<open>cinnamon\<close>, then \<open>mate-session\<close>, then
  \<open>xfce4-session\<close> on the search path, stops at the first one found and returns its
  desktop. When nothing is found it returns \<open>None\<close> (the specification's UNKNOWN),
  and the last thing it does is to print the diagnostic on the error stream.
\<close>

theorem detection_by_variable_then_probes:
  "(\<forall>v. environ h ''XDG_CURRENT_DESKTOP'' = Some v \<and> mentions v ''CINNAMON'' \<longrightarrow>
        fst (get_desktop_environment h tr) = Some CINNAMON) \<and>
   (\<forall>v. environ h ''XDG_CURRENT_DESKTOP'' = Some v \<and> \<not> mentions v ''CINNAMON'' \<and>
        mentions v ''MATE'' \<longrightarrow>
        fst (get_desktop_environment h tr) = Some MATE) \<and>
   (\<forall>v. environ h ''XDG_CURRENT_DESKTOP'' = Some v \<and> \<not> mentions v ''CINNAMON'' \<and>
        \<not> mentions v ''MATE'' \<and> mentions v ''XFCE'' \<longrightarrow>
        fst (get_desktop_environment h tr) = Some XFCE) \<and>
   (environ h ''XDG_CURRENT_DESKTOP'' = Some ''X-Cinnamon'' \<longrightarrow>
        fst (get_desktop_environment h tr) = Some CINNAMON) \<and>
   (environ h ''XDG_CURRENT_DESKTOP'' = None \<or>
    (\<exists>v. environ h ''XDG_CURRENT_DESKTOP'' = Some v \<and> \<not> mentions v ''CINNAMON'' \<and>
         \<not> mentions v ''MATE'' \<and> \<not> mentions v ''XFCE'') \<longrightarrow>
      fst (get_desktop_environment h tr) =
        (if truthy (which h ''cinnamon'') then Some CINNAMON
         else if truthy (which h ''mate-session'') then Some MATE
         else if truthy (which h ''xfce4-session'') then Some XFCE
         else None) \<and>
      probes (snd (get_desktop_environment h tr)) =
        probes tr @
        (if truthy (which h ''cinnamon'') then [''cinnamon'']
         else if truthy (which h ''mate-session'') then [''cinnamon'', ''mate-session'']
         else [''cinnamon'', ''mate-session'', ''xfce4-session'']) \<and>
      (fst (get_desktop_environment h tr) = None \<longrightarrow>
         last (snd (get_desktop_environment h tr)) =
           Stderr ''!! Could not reliably detect desktop environment.''))"
proof (intro conjI allI impI)
  fix v
  assume "environ h ''XDG_CURRENT_DESKTOP'' = Some v \<and> mentions v ''CINNAMON''"
  then show "fst (get_desktop_environment h tr) = Some CINNAMON"
    by (simp add: detect_by_variable(1))
next
  fix v
  assume "environ h ''XDG_CURRENT_DESKTOP'' = Some v \<and> \<not> mentions v ''CINNAMON'' \<and>
          mentions v ''MATE''"
  then show "fst (get_desktop_environment h tr) = Some MATE"
    by (simp add: detect_by_variable(2))
next
  fix v
  assume "environ h ''XDG_CURRENT_DESKTOP'' = Some v \<and> \<not> mentions v ''CINNAMON'' \<and>
          \<not> mentions v ''MATE'' \<and> mentions v ''XFCE''"
  then show "fst (get_desktop_environment h tr) = Some XFCE"
    by (simp add: detect_by_variable(3))
next
  assume "environ h ''XDG_CURRENT_DESKTOP'' = Some ''X-Cinnamon''"
  then show "fst (get_desktop_environment h tr) = Some CINNAMON"
    by (rule detect_by_variable(1)) (rule mentions_X_Cinnamon)
next
  assume a: "environ h ''XDG_CURRENT_DESKTOP'' = None \<or>
    (\<exists>v. environ h ''XDG_CURRENT_DESKTOP'' = Some v \<and> \<not> mentions v ''CINNAMON'' \<and>
         \<not> mentions v ''MATE'' \<and> \<not> mentions v ''XFCE'')"
  note fb = detect_by_fallback [OF a, of tr]
  show "fst (get_desktop_environment h tr) =
        (if truthy (which h ''cinnamon'') then Some CINNAMON
         else if truthy (which h ''mate-session'') then Some MATE
         else if truthy (which h ''xfce4-session'') then Some XFCE
         else None)"
    by (simp only: fb fallback_checks_result)
  show "probes (snd (get_desktop_environment h tr)) =
        probes tr @
        (if truthy (which h ''cinnamon'') then [''cinnamon'']
         else if truthy (which h ''mate-session'') then [''cinnamon'', ''mate-session'']
         else [''cinnamon'', ''mate-session'', ''xfce4-session''])"
    unfolding fb fallback_checks_probes
    by (simp add: probes_append split: option.splits)
  assume "fst (get_desktop_environment h tr) = None"
  then have "fst (fallback_checks h (tr @ EnvGet ''XDG_CURRENT_DESKTOP'' #
                (case environ h ''XDG_CURRENT_DESKTOP'' of
                   None \<Rightarrow> []
                 | Some v \<Rightarrow> if v = [] then []
                            else [Stdout (''-> Detected desktop environment: '' @ upper v)]))) = None"
    by (simp only: fb)
  from fallback_checks_unknown [OF this]
  show "last (snd (get_desktop_environment h tr)) =
           Stderr ''!! Could not reliably detect desktop environment.''"
    unfolding fb by simp
qed

theorem detection_by_variable_then_probes_witness:
  "fst (get_desktop_environment (host0\<lparr>environ := [''XDG_CURRENT_DESKTOP'' \<mapsto> ''X-Cinnamon'']\<rparr>) []) =
     Some CINNAMON \<and>
   fst (get_desktop_environment (host0\<lparr>environ := [''XDG_CURRENT_DESKTOP'' \<mapsto> ''mate'']\<rparr>) []) =
     Some MATE \<and>
   fst (get_desktop_environment (host0\<lparr>environ := [''XDG_CURRENT_DESKTOP'' \<mapsto> ''Xfce'']\<rparr>) []) =
     Some XFCE \<and>
   get_desktop_environment
     (host0\<lparr>which := \<lambda>n. if n = ''mate-session'' then Some ''/usr/bin/mate-session'' else None\<rparr>) [] =
     (Some MATE,
      [EnvGet ''XDG_CURRENT_DESKTOP'', Which ''cinnamon'', Which ''mate-session'',
       Stdout ''-> Detected desktop environment: MATE (fallback check)'']) \<and>
   get_desktop_environment (host0\<lparr>environ := [''XDG_CURRENT_DESKTOP'' \<mapsto> ''GNOME'']\<rparr>) [] =
     (None,
      [EnvGet ''XDG_CURRENT_DESKTOP'', Stdout ''-> Detected desktop environment: GNOME'',
       Which ''cinnamon'', Which ''mate-session'', Which ''xfce4-session'',
       Stderr ''!! Could not reliably detect desktop environment.''])"
  using
    detection_by_variable_then_probes
      [of "host0\<lparr>environ := [''XDG_CURRENT_DESKTOP'' \<mapsto> ''X-Cinnamon'']\<rparr>" "[]"]
    detection_by_variable_then_probes
      [of "host0\<lparr>environ := [''XDG_CURRENT_DESKTOP'' \<mapsto> ''mate'']\<rparr>" "[]"]
    detection_by_variable_then_probes
      [of "host0\<lparr>environ := [''XDG_CURRENT_DESKTOP'' \<mapsto> ''Xfce'']\<rparr>" "[]"]
    detection_by_variable_then_probes
      [of "host0\<lparr>which := \<lambda>n. if n = ''mate-session'' then Some ''/usr/bin/mate-session'' else None\<rparr>" "[]"]
    detection_by_variable_then_probes
      [of "host0\<lparr>environ := [''XDG_CURRENT_DESKTOP'' \<mapsto> ''GNOME'']\<rparr>" "[]"]
  by (simp add: get_desktop_environment_def fallback_checks_def truthy_def host0_def
        upper_def upper_char_def Let_def)

text \<open>
  C2. On an XFCE run whose listing command exits with status 0 and prints at least one line
  containing \<open>last-image\<close> or \<open>image-path\<close> (\<open>image_props\<close> keeps exactly
  those lines, as \<open>image_props_contains\<close> says), the setter returns success, and the
  commands it starts are the listing followed by one set command for each such line, in
  order, whatever each set command's outcome is.
\<close>

theorem xfce_sets_every_listed_property:
  assumes "resolve h image_path = Inr q \<and> is_file h image_path = Inr True"
    and "get_desktop_environment h
           (tr @ [Stdout (''-> Attempting to set background to: '' @ path_str image_path)]) =
         (Some XFCE, tr')"
    and "popen h tr' xfce_list_command = Inr cp"
    and "returncode cp = 0"
    and "image_props (splitlines (stdout cp)) \<noteq> []"
  shows "fst (set_linux_background h image_path tr) = Inr True \<and>
         execs (snd (set_linux_background h image_path tr)) =
           execs tr @ xfce_list_command #
             map (xfce_set_command (path_str q))
               (image_props (splitlines (stdout cp)))"
proof -
  from assms(1,2)
  have "set_linux_background h image_path tr = xfce_branch h (path_str q) tr'"
    by (simp add: set_linux_background_def)
  moreover have "execs tr' = execs tr"
    using get_desktop_environment_execs
      [of h "tr @ [Stdout (''-> Attempting to set background to: '' @ path_str image_path)]"]
      assms(2)
    by (simp add: execs_append)
  ultimately show ?thesis
    using xfce_branch_listed(1) [OF assms(3,4,5), of "path_str q"]
    by simp
qed

theorem xfce_sets_every_listed_property_witness:
  "fst (set_linux_background host_xfce [''home'', ''u'', ''bg.jpg''] []) = Inr True \<and>
   execs (snd (set_linux_background host_xfce [''home'', ''u'', ''bg.jpg''] [])) =
     [[''xfconf-query'', ''-c'', ''xfce4-desktop'', ''-l''],
      [''xfconf-query'', ''-c'', ''xfce4-desktop'', ''-p'',
       ''/backdrop/screen0/monitor0/last-image'', ''-s'', ''/home/u/bg.jpg''],
      [''xfconf-query'', ''-c'', ''xfce4-desktop'', ''-p'',
       ''/backdrop/screen0/monitor1/image-path'', ''-s'', ''/home/u/bg.jpg'']]"
  using xfce_sets_every_listed_property
    [where h = host_xfce and image_path = "[''home'', ''u'', ''bg.jpg'']"
       and q = "[''home'', ''u'', ''bg.jpg'']" and tr = "[]"
       and tr' = "[Stdout ''-> Attempting to set background to: /home/u/bg.jpg'',
                   EnvGet ''XDG_CURRENT_DESKTOP'',
                   Stdout ''-> Detected desktop environment: XFCE'']"
       and cp = "CompletedProcess 0
                    (''/backdrop/screen0/monitor0/last-image'' @ [CHR 0x0A] @
                     ''/backdrop/single-workspace-mode'' @ [CHR 0x0A] @
                     ''/backdrop/screen0/monitor1/image-path'' @ [CHR 0x0A]) []"]
  by (simp add: host_xfce_def eval_defs)

text \<open>
  C3. On an XFCE run whose listing command exits with status 0 and prints no line
  containing \<open>last-image\<close> or \<open>image-path\<close>, the setter returns failure after the
  error line, and the listing is the only command it has started.
\<close>

theorem xfce_without_properties_fails:
  assumes "resolve h image_path = Inr q \<and> is_file h image_path = Inr True"
    and "get_desktop_environment h
           (tr @ [Stdout (''-> Attempting to set background to: '' @ path_str image_path)]) =
         (Some XFCE, tr')"
    and "popen h tr' xfce_list_command = Inr cp"
    and "returncode cp = 0"
    and "image_props (splitlines (stdout cp)) = []"
  shows "set_linux_background h image_path tr =
           (Inr False,
            tr' @ [Exec xfce_list_command,
                   Stderr ''!! Error: Could not find XFCE background properties via xfconf-query.'']) \<and>
         execs (snd (set_linux_background h image_path tr)) = execs tr @ [xfce_list_command]"
proof -
  from assms(1,2)
  have "set_linux_background h image_path tr = xfce_branch h (path_str q) tr'"
    by (simp add: set_linux_background_def)
  moreover have "execs tr' = execs tr"
    using get_desktop_environment_execs
      [of h "tr @ [Stdout (''-> Attempting to set background to: '' @ path_str image_path)]"]
      assms(2)
    by (simp add: execs_append)
  ultimately show ?thesis
    using xfce_branch_listed(2) [OF assms(3,4,5), of "path_str q"]
    by (simp add: execs_append)
qed

theorem xfce_without_properties_fails_witness:
  "set_linux_background host_xfce_bare [''home'', ''u'', ''bg.jpg''] [] =
     (Inr False,
      [Stdout ''-> Attempting to set background to: /home/u/bg.jpg'',
       EnvGet ''XDG_CURRENT_DESKTOP'',
       Stdout ''-> Detected desktop environment: XFCE'',
       Exec [''xfconf-query'', ''-c'', ''xfce4-desktop'', ''-l''],
       Stderr ''!! Error: Could not find XFCE background properties via xfconf-query.''])"
  using xfce_without_properties_fails
    [where h = host_xfce_bare and image_path = "[''home'', ''u'', ''bg.jpg'']"
       and q = "[''home'', ''u'', ''bg.jpg'']" and tr = "[]"
       and tr' = "[Stdout ''-> Attempting to set background to: /home/u/bg.jpg'',
                   EnvGet ''XDG_CURRENT_DESKTOP'',
                   Stdout ''-> Detected desktop environment: XFCE'']"
       and cp = "CompletedProcess 0 (''/backdrop/single-workspace-mode'' @ [CHR 0x0A]) []"]
  by (simp add: host_xfce_bare_def eval_defs)

text \<open>
  C6. On a run that detects CINNAMON the one command started sets \<open>picture-uri\<close> under
  \<open>org.cinnamon.desktop.background\<close> to \<open>file://\<close> followed by the resolved path of
  the image; on a run that detects MATE it sets \<open>picture-filename\<close> under
  \<open>org.mate.background\<close> to the resolved path itself, which starts with a slash and so
  carries no scheme.
\<close>

theorem gsettings_command_per_desktop:
  "(resolve h image_path = Inr q \<and> is_file h image_path = Inr True \<and>
    fst (get_desktop_environment h
           (tr @ [Stdout (''-> Attempting to set background to: '' @ path_str image_path)])) =
      Some CINNAMON \<longrightarrow>
      execs (snd (set_linux_background h image_path tr)) =
        execs tr @
        [[''gsettings'', ''set'', ''org.cinnamon.desktop.background'', ''picture-uri'',
          ''file://'' @ path_str q]]) \<and>
   (resolve h image_path = Inr q \<and> is_file h image_path = Inr True \<and>
    fst (get_desktop_environment h
           (tr @ [Stdout (''-> Attempting to set background to: '' @ path_str image_path)])) =
      Some MATE \<longrightarrow>
      execs (snd (set_linux_background h image_path tr)) =
        execs tr @
        [[''gsettings'', ''set'', ''org.mate.background'', ''picture-filename'',
          path_str q]]) \<and>
   (\<exists>rest. path_str q = CHR ''/'' # rest)"
proof (intro conjI impI)
  let ?tr1 = "tr @ [Stdout (''-> Attempting to set background to: '' @ path_str image_path)]"
  obtain d tr' where det: "get_desktop_environment h ?tr1 = (d, tr')"
    by (cases "get_desktop_environment h ?tr1")
  with get_desktop_environment_execs [of h ?tr1] have ex: "execs tr' = execs tr"
    by (simp add: execs_append)
  {
    assume "resolve h image_path = Inr q \<and> is_file h image_path = Inr True \<and> fst (get_desktop_environment h ?tr1) = Some CINNAMON"
    with det have "set_linux_background h image_path tr =
           run_command h (cinnamon_command (path_str q)) tr'"
      by (simp add: set_linux_background_gsettings(1))
    then show "execs (snd (set_linux_background h image_path tr)) =
        execs tr @
        [[''gsettings'', ''set'', ''org.cinnamon.desktop.background'', ''picture-uri'',
          ''file://'' @ path_str q]]"
      by (simp add: run_command_execs ex cinnamon_command_def)
  }
  {
    assume "resolve h image_path = Inr q \<and> is_file h image_path = Inr True \<and> fst (get_desktop_environment h ?tr1) = Some MATE"
    with det have "set_linux_background h image_path tr =
           run_command h (mate_command (path_str q)) tr'"
      by (simp add: set_linux_background_gsettings(2))
    then show "execs (snd (set_linux_background h image_path tr)) =
        execs tr @
        [[''gsettings'', ''set'', ''org.mate.background'', ''picture-filename'',
          path_str q]]"
      by (simp add: run_command_execs ex mate_command_def)
  }
  show "\<exists>rest. path_str q = CHR ''/'' # rest"
    by (rule path_str_absolute)
qed

theorem gsettings_command_per_desktop_witness:
  "execs (snd (set_linux_background (host0\<lparr>environ := [''XDG_CURRENT_DESKTOP'' \<mapsto> ''X-Cinnamon'']\<rparr>)
                 [''home'', ''u'', ''bg.jpg''] [])) =
     [[''gsettings'', ''set'', ''org.cinnamon.desktop.background'', ''picture-uri'',
       ''file:///home/u/bg.jpg'']] \<and>
   execs (snd (set_linux_background (host0\<lparr>environ := [''XDG_CURRENT_DESKTOP'' \<mapsto> ''MATE'']\<rparr>)
                 [''home'', ''u'', ''bg.jpg''] [])) =
     [[''gsettings'', ''set'', ''org.mate.background'', ''picture-filename'',
       ''/home/u/bg.jpg'']]"
  using
    gsettings_command_per_desktop
      [where h = "host0\<lparr>environ := [''XDG_CURRENT_DESKTOP'' \<mapsto> ''X-Cinnamon'']\<rparr>"
         and image_path = "[''home'', ''u'', ''bg.jpg'']"
         and q = "[''home'', ''u'', ''bg.jpg'']" and tr = "[]"]
    gsettings_command_per_desktop
      [where h = "host0\<lparr>environ := [''XDG_CURRENT_DESKTOP'' \<mapsto> ''MATE'']\<rparr>"
         and image_path = "[''home'', ''u'', ''bg.jpg'']"
         and q = "[''home'', ''u'', ''bg.jpg'']" and tr = "[]"]
  by (simp add: eval_defs)

text \<open>
  C8. \<open>run_command\<close> always returns a boolean, which is true exactly when the process
  was started and exited with status 0. A missing binary, a non-zero exit status and any
  other exception each end in failure with a diagnostic of their own on the error stream:
  the command's name for the first, the command line, the status and the captured
  \<open>stderr\<close> and \<open>stdout\<close> for the second, the exception's text for the third. The
  three diagnostics differ whatever is inserted into them.
\<close>

theorem run_command_three_failure_kinds:
  "(let tr1 = tr @ [Stdout (''   -> Executing: '' @ join '' '' argv)] in
    (\<exists>b. fst (run_command h argv tr) = Inr b) \<and>
    (fst (run_command h argv tr) = Inr True \<longleftrightarrow>
       argv \<noteq> [] \<and> (\<exists>p. popen h tr1 argv = Inr p \<and> returncode p = 0)) \<and>
    (\<forall>p. argv \<noteq> [] \<and> popen h tr1 argv = Inr p \<and> returncode p = 0 \<longrightarrow>
       run_command h argv tr =
         (Inr True, tr1 @ [Exec argv, Stdout ''   -> Command executed successfully.''])) \<and>
    (\<forall>c cs m. argv = c # cs \<and> popen h tr1 argv = Inl (FileNotFoundError m) \<longrightarrow>
       run_command h argv tr =
         (Inr False,
          tr1 @ [Exec argv,
                 Stderr (''!! Error: Command not found: '' @ c @
                         ''. Is it installed and in PATH?'')])) \<and>
    (\<forall>p. argv \<noteq> [] \<and> popen h tr1 argv = Inr p \<and> returncode p \<noteq> 0 \<longrightarrow>
       run_command h argv tr =
         (Inr False,
          tr1 @ [Exec argv,
                 Stderr (''!! Error executing command: '' @ join '' '' argv),
                 Stderr (''   Return Code: '' @ str_int (returncode p)),
                 Stderr (''   STDERR: '' @ stderr p),
                 Stderr (''   STDOUT: '' @ stdout p)])) \<and>
    (\<forall>e. argv \<noteq> [] \<and> popen h tr1 argv = Inl e \<and>
         (\<forall>m. e \<noteq> FileNotFoundError m) \<and>
         (\<forall>cmd rc out err. e \<noteq> CalledProcessError cmd rc out err) \<longrightarrow>
       run_command h argv tr =
         (Inr False,
          tr1 @ [Exec argv,
                 Stderr (''!! An unexpected error occurred running the command: '' @
                         exn_str h e)])) \<and>
    (\<forall>x y. ''!! Error: Command not found: '' @ x \<noteq> ''!! Error executing command: '' @ y) \<and>
    (\<forall>x y. ''!! Error: Command not found: '' @ x \<noteq>
           ''!! An unexpected error occurred running the command: '' @ y) \<and>
    (\<forall>x y. ''!! Error executing command: '' @ x \<noteq>
           ''!! An unexpected error occurred running the command: '' @ y))"
proof -
  let ?tr1 = "tr @ [Stdout (''   -> Executing: '' @ join '' '' argv)]"
  have returns: "\<exists>b. fst (run_command h argv tr) = Inr b"
    by (simp add: run_command_result)
  have success: "fst (run_command h argv tr) = Inr True \<longleftrightarrow>
       argv \<noteq> [] \<and> (\<exists>p. popen h ?tr1 argv = Inr p \<and> returncode p = 0)"
    by (auto simp: run_command_result split: sum.splits)
  have ok: "\<forall>p. argv \<noteq> [] \<and> popen h ?tr1 argv = Inr p \<and> returncode p = 0 \<longrightarrow>
       run_command h argv tr =
         (Inr True, ?tr1 @ [Exec argv, Stdout ''   -> Command executed successfully.''])"
    by (auto simp: run_command_def subprocess_run_def Let_def)
  have not_found: "\<forall>c cs m. argv = c # cs \<and> popen h ?tr1 argv = Inl (FileNotFoundError m) \<longrightarrow>
       run_command h argv tr =
         (Inr False,
          ?tr1 @ [Exec argv,
                 Stderr (''!! Error: Command not found: '' @ c @
                         ''. Is it installed and in PATH?'')])"
    by (auto simp: run_command_def subprocess_run_def Let_def)
  have non_zero: "\<forall>p. argv \<noteq> [] \<and> popen h ?tr1 argv = Inr p \<and> returncode p \<noteq> 0 \<longrightarrow>
       run_command h argv tr =
         (Inr False,
          ?tr1 @ [Exec argv,
                 Stderr (''!! Error executing command: '' @ join '' '' argv),
                 Stderr (''   Return Code: '' @ str_int (returncode p)),
                 Stderr (''   STDERR: '' @ stderr p),
                 Stderr (''   STDOUT: '' @ stdout p)])"
    by (auto simp: run_command_def subprocess_run_def Let_def)
  have other: "\<forall>e. argv \<noteq> [] \<and> popen h ?tr1 argv = Inl e \<and>
         (\<forall>m. e \<noteq> FileNotFoundError m) \<and>
         (\<forall>cmd rc out err. e \<noteq> CalledProcessError cmd rc out err) \<longrightarrow>
       run_command h argv tr =
         (Inr False,
          ?tr1 @ [Exec argv,
                 Stderr (''!! An unexpected error occurred running the command: '' @
                         exn_str h e)])"
  proof (intro allI impI, elim conjE)
    fix e
    assume "argv \<noteq> []" "popen h ?tr1 argv = Inl e" "\<forall>m. e \<noteq> FileNotFoundError m"
       "\<forall>cmd rc out err. e \<noteq> CalledProcessError cmd rc out err"
    then show "run_command h argv tr =
         (Inr False,
          ?tr1 @ [Exec argv,
                 Stderr (''!! An unexpected error occurred running the command: '' @
                         exn_str h e)])"
      by (cases e) (simp_all add: run_command_def subprocess_run_def Let_def)
  qed
  have d1: "\<forall>x y. ''!! Error: Command not found: '' @ x \<noteq> ''!! Error executing command: '' @ y"
    by simp
  have d2: "\<forall>x y. ''!! Error: Command not found: '' @ x \<noteq>
           ''!! An unexpected error occurred running the command: '' @ y"
    by simp
  have d3: "\<forall>x y. ''!! Error executing command: '' @ x \<noteq>
           ''!! An unexpected error occurred running the command: '' @ y"
    by simp
  show ?thesis
    unfolding Let_def
    by (intro conjI returns success ok not_found non_zero other d1 d2 d3)
qed


theorem run_command_three_failure_kinds_witness:
  "run_command host0 [''true''] [] =
     (Inr True,
      [Stdout ''   -> Executing: true'', Exec [''true''],
       Stdout ''   -> Command executed successfully.'']) \<and>
   run_command (host0\<lparr>popen := \<lambda>tr argv. Inl (FileNotFoundError ''No such file or directory'')\<rparr>)
       [''nosuch'', ''-x''] [] =
     (Inr False,
      [Stdout ''   -> Executing: nosuch -x'', Exec [''nosuch'', ''-x''],
       Stderr ''!! Error: Command not found: nosuch. Is it installed and in PATH?'']) \<and>
   run_command (host0\<lparr>popen := \<lambda>tr argv. Inr (CompletedProcess 2 ''out'' ''err'')\<rparr>)
       [''false''] [] =
     (Inr False,
      [Stdout ''   -> Executing: false'', Exec [''false''],
       Stderr ''!! Error executing command: false'',
       Stderr ''   Return Code: 2'',
       Stderr ''   STDERR: err'',
       Stderr ''   STDOUT: out'']) \<and>
   run_command (host0\<lparr>popen := \<lambda>tr argv. Inl (OSError ''Permission denied'')\<rparr>)
       [''locked''] [] =
     (Inr False,
      [Stdout ''   -> Executing: locked'', Exec [''locked''],
       Stderr ''!! An unexpected error occurred running the command: Permission denied''])"
  using
    run_command_three_failure_kinds [of "[]" "[''true'']" host0]
    run_command_three_failure_kinds
      [of "[]" "[''nosuch'', ''-x'']"
          "host0\<lparr>popen := \<lambda>tr argv. Inl (FileNotFoundError ''No such file or directory'')\<rparr>"]
    run_command_three_failure_kinds
      [of "[]" "[''false'']" "host0\<lparr>popen := \<lambda>tr argv. Inr (CompletedProcess 2 ''out'' ''err'')\<rparr>"]
    run_command_three_failure_kinds
      [of "[]" "[''locked'']" "host0\<lparr>popen := \<lambda>tr argv. Inl (OSError ''Permission denied'')\<rparr>"]
  by (simp add: host0_def Let_def str_int_def str_nat.simps)

text \<open>
  C9. When the desktop variable names more than one of the three desktops, the first in
  the order CINNAMON, MATE, XFCE is returned.
\<close>

theorem variable_match_priority:
  "(environ h ''XDG_CURRENT_DESKTOP'' = Some v \<and> mentions v ''CINNAMON'' \<and>
      (mentions v ''MATE'' \<or> mentions v ''XFCE'') \<longrightarrow>
      fst (get_desktop_environment h tr) = Some CINNAMON) \<and>
   (environ h ''XDG_CURRENT_DESKTOP'' = Some v \<and> \<not> mentions v ''CINNAMON'' \<and>
      mentions v ''MATE'' \<and> mentions v ''XFCE'' \<longrightarrow>
      fst (get_desktop_environment h tr) = Some MATE)"
  by (simp add: detect_by_variable)

theorem variable_match_priority_witness:
  "mentions ''XFCE:MATE:X-Cinnamon'' ''CINNAMON'' \<and> mentions ''XFCE:MATE:X-Cinnamon'' ''MATE'' \<and>
   mentions ''XFCE:MATE:X-Cinnamon'' ''XFCE'' \<and>
   fst (get_desktop_environment
          (host0\<lparr>environ := [''XDG_CURRENT_DESKTOP'' \<mapsto> ''XFCE:MATE:X-Cinnamon'']\<rparr>) []) =
     Some CINNAMON \<and>
   mentions ''xfce:mate'' ''MATE'' \<and> mentions ''xfce:mate'' ''XFCE'' \<and>
   fst (get_desktop_environment
          (host0\<lparr>environ := [''XDG_CURRENT_DESKTOP'' \<mapsto> ''xfce:mate'']\<rparr>) []) =
     Some MATE"
  using
    variable_match_priority
      [of "host0\<lparr>environ := [''XDG_CURRENT_DESKTOP'' \<mapsto> ''XFCE:MATE:X-Cinnamon'']\<rparr>"
          "''XFCE:MATE:X-Cinnamon''" "[]"]
    variable_match_priority
      [of "host0\<lparr>environ := [''XDG_CURRENT_DESKTOP'' \<mapsto> ''xfce:mate'']\<rparr>"
          "''xfce:mate''" "[]"]
  by (simp add: mentions_iff upper_def upper_char_def host0_def)

text \<open>
  C10. The command lists built for CINNAMON and MATE are never empty. On a run that detects
  either, the setter is \<open>run_command\<close> on that list: the test \<open>if command\<close>
  succeeds, and the result is never the one of the branch below it, which returns failure
  without a further event.
\<close>

theorem command_never_empty:
  "cinnamon_command a \<noteq> [] \<and> mate_command a \<noteq> [] \<and>
   (resolve h image_path = Inr q \<and> is_file h image_path = Inr True \<and>
    get_desktop_environment h
      (tr @ [Stdout (''-> Attempting to set background to: '' @ path_str image_path)]) =
      (Some CINNAMON, tr') \<longrightarrow>
      set_linux_background h image_path tr =
        run_command h (cinnamon_command (path_str q)) tr' \<and>
      set_linux_background h image_path tr \<noteq> (Inr False, tr')) \<and>
   (resolve h image_path = Inr q \<and> is_file h image_path = Inr True \<and>
    get_desktop_environment h
      (tr @ [Stdout (''-> Attempting to set background to: '' @ path_str image_path)]) =
      (Some MATE, tr') \<longrightarrow>
      set_linux_background h image_path tr =
        run_command h (mate_command (path_str q)) tr' \<and>
      set_linux_background h image_path tr \<noteq> (Inr False, tr'))"
proof (intro conjI impI)
  show "cinnamon_command a \<noteq> []"
    by (simp add: cinnamon_command_def)
  show "mate_command a \<noteq> []"
    by (simp add: mate_command_def)
  have away: "run_command h c tr' \<noteq> (Inr False, tr')" for c
    using run_command_extends [of h c tr'] by (cases "run_command h c tr'") auto
  {
    assume a: "resolve h image_path = Inr q \<and> is_file h image_path = Inr True \<and>
      get_desktop_environment h
        (tr @ [Stdout (''-> Attempting to set background to: '' @ path_str image_path)]) =
        (Some CINNAMON, tr')"
    then show c: "set_linux_background h image_path tr =
        run_command h (cinnamon_command (path_str q)) tr'"
      by (simp add: set_linux_background_gsettings(1))
    show "set_linux_background h image_path tr \<noteq> (Inr False, tr')"
      unfolding c by (rule away)
  }
  {
    assume a: "resolve h image_path = Inr q \<and> is_file h image_path = Inr True \<and>
      get_desktop_environment h
        (tr @ [Stdout (''-> Attempting to set background to: '' @ path_str image_path)]) =
        (Some MATE, tr')"
    then show c: "set_linux_background h image_path tr =
        run_command h (mate_command (path_str q)) tr'"
      by (simp add: set_linux_background_gsettings(2))
    show "set_linux_background h image_path tr \<noteq> (Inr False, tr')"
      unfolding c by (rule away)
  }
qed


theorem command_never_empty_witness:
  "set_linux_background (host0\<lparr>environ := [''XDG_CURRENT_DESKTOP'' \<mapsto> ''MATE'']\<rparr>)
     [''home'', ''u'', ''bg.jpg''] [] =
     (Inr True,
      [Stdout ''-> Attempting to set background to: /home/u/bg.jpg'',
       EnvGet ''XDG_CURRENT_DESKTOP'',
       Stdout ''-> Detected desktop environment: MATE'',
       Stdout ''   -> Executing: gsettings set org.mate.background picture-filename /home/u/bg.jpg'',
       Exec [''gsettings'', ''set'', ''org.mate.background'', ''picture-filename'', ''/home/u/bg.jpg''],
       Stdout ''   -> Command executed successfully.'']) \<and>
   fst (set_linux_background
          (host0\<lparr>which := \<lambda>n. if n = ''cinnamon'' then Some ''/usr/bin/cinnamon'' else None\<rparr>)
          [''home'', ''u'', ''bg.jpg''] []) = Inr True"
  using
    command_never_empty
      [where h = "host0\<lparr>environ := [''XDG_CURRENT_DESKTOP'' \<mapsto> ''MATE'']\<rparr>"
         and image_path = "[''home'', ''u'', ''bg.jpg'']"
         and q = "[''home'', ''u'', ''bg.jpg'']" and tr = "[]" and a = "''/home/u/bg.jpg''"
         and tr' = "[Stdout ''-> Attempting to set background to: /home/u/bg.jpg'',
                     EnvGet ''XDG_CURRENT_DESKTOP'',
                     Stdout ''-> Detected desktop environment: MATE'']"]
    command_never_empty
      [where h = "host0\<lparr>which := \<lambda>n. if n = ''cinnamon'' then Some ''/usr/bin/cinnamon'' else None\<rparr>"
         and image_path = "[''home'', ''u'', ''bg.jpg'']"
         and q = "[''home'', ''u'', ''bg.jpg'']" and tr = "[]" and a = "''/home/u/bg.jpg''"
         and tr' = "[Stdout ''-> Attempting to set background to: /home/u/bg.jpg'',
                     EnvGet ''XDG_CURRENT_DESKTOP'', Which ''cinnamon'',
                     Stdout ''-> Detected desktop environment: CINNAMON (fallback check)'']"]
  by (simp add: eval_defs)

text \<open>
  C5, as the script has it. \<open>raise_for_status\<close> rejects the statuses 400 to 599 only.
  For every fetch whose response carries one of these, the fetcher returns failure after
  the error line, no file is opened or changed, and the parent directories of the
  destination have been created. (The directories are created before the request is
  sent, so a response implies that \<open>mkdir\<close> succeeded.)
\<close>

theorem error_status_leaves_cache_untouched:
  assumes "mkdir_fault h (parent save_path) = None"
    and "requests_get h image_url = Inr r"
    and "400 \<le> status_code r" and "status_code r < 600"
  shows "\<exists>m. download_image h image_url save_path s tr =
           (Inr False,
            s\<lparr>dirs := dirs s \<union> set (prefixes (parent save_path))\<rparr>,
            tr @ [Stdout (''-> Attempting to download image from: '' @ image_url),
                  HttpGet image_url,
                  Stderr (''!! Error downloading image: '' @ m)]) \<and>
         files (fst (snd (download_image h image_url save_path s tr))) = files s \<and>
         parent save_path \<in> dirs (fst (snd (download_image h image_url save_path s tr)))"
proof -
  from raise_for_status_error [OF assms(3,4)]
  obtain m where m: "raise_for_status r = Some (HTTPError m)" ..
  from download_body_error_status [OF assms(1,2) m]
  have "download_image h image_url save_path s tr =
           (Inr False,
            s\<lparr>dirs := dirs s \<union> set (prefixes (parent save_path))\<rparr>,
            tr @ [Stdout (''-> Attempting to download image from: '' @ image_url),
                  HttpGet image_url,
                  Stderr (''!! Error downloading image: '' @ m)])"
    by (simp add: download_image_def download_except_def)
  then show ?thesis
    by simp
qed

theorem error_status_leaves_cache_untouched_witness:
  "download_image
     (host0\<lparr>requests_get := \<lambda>u. Inr (Response 404 ''Not Found'' u [''<html>''] None)\<rparr>)
     ''https://example.org/latest.jpg'' cache_path fs0 [] =
     (Inr False, fs0,
      [Stdout ''-> Attempting to download image from: https://example.org/latest.jpg'',
       HttpGet ''https://example.org/latest.jpg'',
       Stderr ''!! Error downloading image: 404 Client Error: Not Found for url: https://example.org/latest.jpg'']) \<and>
   files fs0 cache_path = Some ''JPEG'' \<and>
   fst (download_image
          (host0\<lparr>requests_get := \<lambda>u. Inr (Response 503 ''Service Unavailable'' u [] None)\<rparr>)
          ''https://example.org/latest.jpg'' cache_path fs_fresh []) = Inr False \<and>
   [''home'', ''u'', ''.cache'', ''noaa_wallpaper''] \<notin> dirs fs_fresh \<and>
   [''home'', ''u'', ''.cache'', ''noaa_wallpaper''] \<in>
     dirs (fst (snd (download_image
          (host0\<lparr>requests_get := \<lambda>u. Inr (Response 503 ''Service Unavailable'' u [] None)\<rparr>)
          ''https://example.org/latest.jpg'' cache_path fs_fresh []))) \<and>
   files (fst (snd (download_image
          (host0\<lparr>requests_get := \<lambda>u. Inr (Response 503 ''Service Unavailable'' u [] None)\<rparr>)
          ''https://example.org/latest.jpg'' cache_path fs_fresh []))) cache_path = None"
  using
    error_status_leaves_cache_untouched
      [where h = "host0\<lparr>requests_get := \<lambda>u. Inr (Response 404 ''Not Found'' u [''<html>''] None)\<rparr>"
         and image_url = "''https://example.org/latest.jpg''" and save_path = cache_path
         and s = fs0 and tr = "[]"
         and r = "Response 404 ''Not Found'' ''https://example.org/latest.jpg'' [''<html>''] None"]
    error_status_leaves_cache_untouched
      [where h = "host0\<lparr>requests_get := \<lambda>u. Inr (Response 503 ''Service Unavailable'' u [] None)\<rparr>"
         and image_url = "''https://example.org/latest.jpg''" and save_path = cache_path
         and s = fs_fresh and tr = "[]"
         and r = "Response 503 ''Service Unavailable'' ''https://example.org/latest.jpg'' [] None"]
  by (simp add: fetch_defs insert_commute)

text \<open>
  C5 as stated fails for a status that is neither 2xx nor an error status: a response 304
  with an empty body is written over the cached image, and the fetcher returns success.
\<close>

theorem not_modified_status_empties_cache:
  "status_code (Response 304 ''Not Modified'' ''https://example.org/latest.jpg'' [] None) = 304 \<and>
   files fs0 cache_path = Some ''JPEG'' \<and>
   fst (download_image
          (host0\<lparr>requests_get := \<lambda>u. Inr (Response 304 ''Not Modified'' u [] None)\<rparr>)
          ''https://example.org/latest.jpg'' cache_path fs0 []) = Inr True \<and>
   files (fst (snd (download_image
          (host0\<lparr>requests_get := \<lambda>u. Inr (Response 304 ''Not Modified'' u [] None)\<rparr>)
          ''https://example.org/latest.jpg'' cache_path fs0 []))) cache_path = Some []"
  by (simp add: fetch_defs)

text \<open>
  C7. \<open>download_image\<close> always returns a boolean, and it is true exactly when nothing
  failed: the directories were made, the GET was answered with a status outside 400 to
  599, the file was opened, every chunk was written and the stream ended cleanly. Each
  failure ends in a false result after the diagnostic of its exception on the error
  stream: a failing \<open>mkdir\<close> (before any request is sent), a failing GET, an error
  status, a failing \<open>open\<close>, the first failing write, a stream that breaks. The
  diagnostic is the download message for a \<open>RequestException\<close>, the file message for
  any other \<open>OSError\<close>, the message for unexpected errors for everything else.
\<close>

theorem download_image_turns_every_error_into_failure:
  "(let tr1 = tr @ [Stdout (''-> Attempting to download image from: '' @ image_url)];
        s1 = s\<lparr>dirs := dirs s \<union> set (prefixes (parent save_path))\<rparr>
    in
    (\<exists>b. fst (download_image h image_url save_path s tr) = Inr b) \<and>
    (fst (download_image h image_url save_path s tr) = Inr True \<longleftrightarrow>
       mkdir_fault h (parent save_path) = None \<and>
       (\<exists>r. requests_get h image_url = Inr r \<and>
            (status_code r < 400 \<or> 600 \<le> status_code r) \<and>
            open_fault h save_path = None \<and>
            (\<forall>i<length (chunks r). write_fault h i = None) \<and> stream_fault r = None)) \<and>
    (\<forall>k e. mkdir_fault h (parent save_path) = Some (k, e) \<longrightarrow>
       download_image h image_url save_path s tr =
         (Inr False,
          s\<lparr>dirs := dirs s \<union> set (take k (prefixes (parent save_path)))\<rparr>,
          tr1 @ [Stderr (download_except h e)])) \<and>
    (\<forall>e. mkdir_fault h (parent save_path) = None \<and> requests_get h image_url = Inl e \<longrightarrow>
       download_image h image_url save_path s tr =
         (Inr False, s1, tr1 @ [HttpGet image_url, Stderr (download_except h e)])) \<and>
    (\<forall>r. mkdir_fault h (parent save_path) = None \<and> requests_get h image_url = Inr r \<and>
         400 \<le> status_code r \<and> status_code r < 600 \<longrightarrow>
       (\<exists>m. download_image h image_url save_path s tr =
         (Inr False, s1,
          tr1 @ [HttpGet image_url, Stderr (''!! Error downloading image: '' @ m)]))) \<and>
    (\<forall>r e. mkdir_fault h (parent save_path) = None \<and> requests_get h image_url = Inr r \<and>
         (status_code r < 400 \<or> 600 \<le> status_code r) \<and>
         open_fault h save_path = Some e \<longrightarrow>
       download_image h image_url save_path s tr =
         (Inr False, s1, tr1 @ [HttpGet image_url, Stderr (download_except h e)])) \<and>
    (\<forall>r i e. mkdir_fault h (parent save_path) = None \<and> requests_get h image_url = Inr r \<and>
         (status_code r < 400 \<or> 600 \<le> status_code r) \<and>
         open_fault h save_path = None \<and>
         i < length (chunks r) \<and> write_fault h i = Some e \<and>
         (\<forall>j<i. write_fault h j = None) \<longrightarrow>
       fst (download_image h image_url save_path s tr) = Inr False \<and>
       snd (snd (download_image h image_url save_path s tr)) =
         tr1 @ [HttpGet image_url, Stderr (download_except h e)]) \<and>
    (\<forall>r e. mkdir_fault h (parent save_path) = None \<and> requests_get h image_url = Inr r \<and>
         (status_code r < 400 \<or> 600 \<le> status_code r) \<and>
         open_fault h save_path = None \<and>
         (\<forall>i<length (chunks r). write_fault h i = None) \<and> stream_fault r = Some e \<longrightarrow>
       fst (download_image h image_url save_path s tr) = Inr False \<and>
       snd (snd (download_image h image_url save_path s tr)) =
         tr1 @ [HttpGet image_url, Stderr (download_except h e)]) \<and>
    (\<forall>e. isinstance_RequestException e \<longrightarrow>
       download_except h e = ''!! Error downloading image: '' @ exn_str h e) \<and>
    (\<forall>e. \<not> isinstance_RequestException e \<and> isinstance_OSError e \<longrightarrow>
       download_except h e = ''!! Error saving image file: '' @ exn_str h e) \<and>
    (\<forall>e. \<not> isinstance_RequestException e \<and> \<not> isinstance_OSError e \<longrightarrow>
       download_except h e = ''!! An unexpected error occurred during download: '' @ exn_str h e))"
proof -
  let ?tr1 = "tr @ [Stdout (''-> Attempting to download image from: '' @ image_url)]"
  let ?s1 = "s\<lparr>dirs := dirs s \<union> set (prefixes (parent save_path))\<rparr>"
  let ?s2 = "s\<lparr>dirs := dirs s \<union> set (prefixes (parent save_path)),
                files := (files s)(save_path \<mapsto> [])\<rparr>"
  let ?run = "download_image h image_url save_path s tr"
  let ?body = "download_body h image_url save_path s ?tr1"
  have returns: "\<exists>b. fst ?run = Inr b"
    by (cases ?body rule: prod_cases3) (auto simp: download_image_handles split: sum.splits)
  have "fst ?run = Inr True \<longleftrightarrow> fst ?body = Inr ()"
    by (cases ?body rule: prod_cases3) (auto simp: download_image_handles split: sum.splits)
  then have success: "fst ?run = Inr True \<longleftrightarrow>
       mkdir_fault h (parent save_path) = None \<and>
       (\<exists>r. requests_get h image_url = Inr r \<and>
            (status_code r < 400 \<or> 600 \<le> status_code r) \<and>
            open_fault h save_path = None \<and>
            (\<forall>i<length (chunks r). write_fault h i = None) \<and> stream_fault r = None)"
    by (simp only: download_body_returns_iff raise_for_status_None_iff)
  have mkdir: "\<forall>k e. mkdir_fault h (parent save_path) = Some (k, e) \<longrightarrow>
       ?run =
         (Inr False,
          s\<lparr>dirs := dirs s \<union> set (take k (prefixes (parent save_path)))\<rparr>,
          ?tr1 @ [Stderr (download_except h e)])"
    by (simp add: download_image_def download_body_def mkdir_parents_def)
  have get: "\<forall>e. mkdir_fault h (parent save_path) = None \<and> requests_get h image_url = Inl e \<longrightarrow>
       ?run = (Inr False, ?s1, ?tr1 @ [HttpGet image_url, Stderr (download_except h e)])"
    by (simp add: download_image_def download_body_def mkdir_parents_def)
  have status: "\<forall>r. mkdir_fault h (parent save_path) = None \<and> requests_get h image_url = Inr r \<and>
         400 \<le> status_code r \<and> status_code r < 600 \<longrightarrow>
       (\<exists>m. ?run =
         (Inr False, ?s1,
          ?tr1 @ [HttpGet image_url, Stderr (''!! Error downloading image: '' @ m)]))"
  proof (intro allI impI, elim conjE)
    fix r
    assume a: "mkdir_fault h (parent save_path) = None" "requests_get h image_url = Inr r"
      and b: "400 \<le> status_code r" "status_code r < 600"
    from raise_for_status_error [OF b] obtain m where "raise_for_status r = Some (HTTPError m)" ..
    from download_body_error_status [OF a this, of s ?tr1]
    have "?run =
         (Inr False, ?s1,
          ?tr1 @ [HttpGet image_url, Stderr (''!! Error downloading image: '' @ m)])"
      by (simp add: download_image_def download_except_def)
    then show "\<exists>m. ?run =
         (Inr False, ?s1,
          ?tr1 @ [HttpGet image_url, Stderr (''!! Error downloading image: '' @ m)])" ..
  qed
  have opened: "\<forall>r e. mkdir_fault h (parent save_path) = None \<and> requests_get h image_url = Inr r \<and>
         (status_code r < 400 \<or> 600 \<le> status_code r) \<and>
         open_fault h save_path = Some e \<longrightarrow>
       ?run = (Inr False, ?s1, ?tr1 @ [HttpGet image_url, Stderr (download_except h e)])"
    by (auto simp: download_image_def download_body_def mkdir_parents_def open_wb_def
          raise_for_status_None_iff [symmetric])
  have writing: "\<forall>r i e. mkdir_fault h (parent save_path) = None \<and> requests_get h image_url = Inr r \<and>
         (status_code r < 400 \<or> 600 \<le> status_code r) \<and>
         open_fault h save_path = None \<and>
         i < length (chunks r) \<and> write_fault h i = Some e \<and>
         (\<forall>j<i. write_fault h j = None) \<longrightarrow>
       fst ?run = Inr False \<and>
       snd (snd ?run) = ?tr1 @ [HttpGet image_url, Stderr (download_except h e)]"
  proof (intro allI impI, elim conjE)
    fix r i e
    assume a: "mkdir_fault h (parent save_path) = None" "requests_get h image_url = Inr r"
      "open_fault h save_path = None"
      and st: "status_code r < 400 \<or> 600 \<le> status_code r"
      and w: "i < length (chunks r)" "write_fault h i = Some e" "\<forall>j<i. write_fault h j = None"
    from st have rfs: "raise_for_status r = None"
      by (simp add: raise_for_status_None_iff)
    from w have "fst (write_chunks h save_path 0 (chunks r) ?s2) = Inl e"
      by (intro write_chunks_first_fault [of i]) simp_all
    then obtain s3 where "write_chunks h save_path 0 (chunks r) ?s2 = (Inl e, s3)"
      by (cases "write_chunks h save_path 0 (chunks r) ?s2") simp
    with a rfs show "fst ?run = Inr False \<and>
       snd (snd ?run) = ?tr1 @ [HttpGet image_url, Stderr (download_except h e)]"
      by (simp add: download_image_def download_body_def mkdir_parents_def open_wb_def)
  qed
  have streaming: "\<forall>r e. mkdir_fault h (parent save_path) = None \<and> requests_get h image_url = Inr r \<and>
         (status_code r < 400 \<or> 600 \<le> status_code r) \<and>
         open_fault h save_path = None \<and>
         (\<forall>i<length (chunks r). write_fault h i = None) \<and> stream_fault r = Some e \<longrightarrow>
       fst ?run = Inr False \<and>
       snd (snd ?run) = ?tr1 @ [HttpGet image_url, Stderr (download_except h e)]"
  proof (intro allI impI, elim conjE)
    fix r e
    assume a: "mkdir_fault h (parent save_path) = None" "requests_get h image_url = Inr r"
      "open_fault h save_path = None" "stream_fault r = Some e"
      and st: "status_code r < 400 \<or> 600 \<le> status_code r"
      and w: "\<forall>i<length (chunks r). write_fault h i = None"
    from st have rfs: "raise_for_status r = None"
      by (simp add: raise_for_status_None_iff)
    from w have "fst (write_chunks h save_path 0 (chunks r) ?s2) = Inr ()"
      by (simp add: write_chunks_iff)
    then obtain s3 where "write_chunks h save_path 0 (chunks r) ?s2 = (Inr (), s3)"
      by (cases "write_chunks h save_path 0 (chunks r) ?s2") simp
    with a rfs show "fst ?run = Inr False \<and>
       snd (snd ?run) = ?tr1 @ [HttpGet image_url, Stderr (download_except h e)]"
      by (simp add: download_image_def download_body_def mkdir_parents_def open_wb_def)
  qed
  have c1: "\<forall>e. isinstance_RequestException e \<longrightarrow>
       download_except h e = ''!! Error downloading image: '' @ exn_str h e"
    by (simp add: download_except_def)
  have c2: "\<forall>e. \<not> isinstance_RequestException e \<and> isinstance_OSError e \<longrightarrow>
       download_except h e = ''!! Error saving image file: '' @ exn_str h e"
    by (simp add: download_except_def)
  have c3: "\<forall>e. \<not> isinstance_RequestException e \<and> \<not> isinstance_OSError e \<longrightarrow>
       download_except h e = ''!! An unexpected error occurred during download: '' @ exn_str h e"
    by (simp add: download_except_def)
  show ?thesis
    unfolding Let_def
    by (intro conjI returns success mkdir get status opened writing streaming c1 c2 c3)
qed

theorem download_image_turns_every_error_into_failure_witness:
  "download_image (host0\<lparr>requests_get := \<lambda>u. Inl (RequestException ''Connection refused'')\<rparr>)
     ''https://example.org/latest.jpg'' cache_path fs0 [] =
     (Inr False, fs0,
      [Stdout ''-> Attempting to download image from: https://example.org/latest.jpg'',
       HttpGet ''https://example.org/latest.jpg'',
       Stderr ''!! Error downloading image: Connection refused'']) \<and>
   download_image (host0\<lparr>requests_get := \<lambda>u. Inr (Response 404 ''Not Found'' u [''<html>''] None)\<rparr>)
     ''https://example.org/latest.jpg'' cache_path fs0 [] =
     (Inr False, fs0,
      [Stdout ''-> Attempting to download image from: https://example.org/latest.jpg'',
       HttpGet ''https://example.org/latest.jpg'',
       Stderr ''!! Error downloading image: 404 Client Error: Not Found for url: https://example.org/latest.jpg'']) \<and>
   download_image (host0\<lparr>mkdir_fault := \<lambda>p. Some (0, OSError ''Permission denied'')\<rparr>)
     ''https://example.org/latest.jpg'' cache_path fs_fresh [] =
     (Inr False, fs_fresh,
      [Stdout ''-> Attempting to download image from: https://example.org/latest.jpg'',
       Stderr ''!! Error saving image file: Permission denied'']) \<and>
   download_image (host0\<lparr>open_fault := \<lambda>p. Some (OSError ''Read-only file system'')\<rparr>)
     ''https://example.org/latest.jpg'' cache_path fs0 [] =
     (Inr False, fs0,
      [Stdout ''-> Attempting to download image from: https://example.org/latest.jpg'',
       HttpGet ''https://example.org/latest.jpg'',
       Stderr ''!! Error saving image file: Read-only file system'']) \<and>
   fst (download_image
     (host0\<lparr>requests_get := \<lambda>u. Inr (Response 200 ''OK'' u [''JF'', ''IF''] None),
            write_fault := \<lambda>n. if n = 1 then Some (OSError ''No space left on device'') else None\<rparr>)
     ''https://example.org/latest.jpg'' cache_path fs0 []) = Inr False \<and>
   snd (snd (download_image
     (host0\<lparr>requests_get := \<lambda>u. Inr (Response 200 ''OK'' u [''JF'', ''IF''] None),
            write_fault := \<lambda>n. if n = 1 then Some (OSError ''No space left on device'') else None\<rparr>)
     ''https://example.org/latest.jpg'' cache_path fs0 [])) =
     [Stdout ''-> Attempting to download image from: https://example.org/latest.jpg'',
      HttpGet ''https://example.org/latest.jpg'',
      Stderr ''!! Error saving image file: No space left on device''] \<and>
   snd (snd (download_image
     (host0\<lparr>requests_get := \<lambda>u. Inr (Response 200 ''OK'' u [''JFIF''] (Some (OtherException ''decode'')))\<rparr>)
     ''https://example.org/latest.jpg'' cache_path fs0 [])) =
     [Stdout ''-> Attempting to download image from: https://example.org/latest.jpg'',
      HttpGet ''https://example.org/latest.jpg'',
      Stderr ''!! An unexpected error occurred during download: decode''] \<and>
   fst (download_image (host0\<lparr>requests_get := \<lambda>u. Inr (Response 200 ''OK'' u [''JF'', ''IF''] None)\<rparr>)
     ''https://example.org/latest.jpg'' cache_path fs0 []) = Inr True \<and>
   files (fst (snd (download_image
     (host0\<lparr>requests_get := \<lambda>u. Inr (Response 200 ''OK'' u [''JF'', ''IF''] None)\<rparr>)
     ''https://example.org/latest.jpg'' cache_path fs0 []))) cache_path = Some ''JFIF''"
  using
    download_image_turns_every_error_into_failure
      [of "[]" "''https://example.org/latest.jpg''" fs0 cache_path
          "host0\<lparr>requests_get := \<lambda>u. Inl (RequestException ''Connection refused'')\<rparr>"]
    download_image_turns_every_error_into_failure
      [of "[]" "''https://example.org/latest.jpg''" fs0 cache_path
          "host0\<lparr>requests_get := \<lambda>u. Inr (Response 404 ''Not Found'' u [''<html>''] None)\<rparr>"]
    download_image_turns_every_error_into_failure
      [of "[]" "''https://example.org/latest.jpg''" fs_fresh cache_path
          "host0\<lparr>mkdir_fault := \<lambda>p. Some (0, OSError ''Permission denied'')\<rparr>"]
    download_image_turns_every_error_into_failure
      [of "[]" "''https://example.org/latest.jpg''" fs0 cache_path
          "host0\<lparr>open_fault := \<lambda>p. Some (OSError ''Read-only file system'')\<rparr>"]
    download_image_turns_every_error_into_failure
      [of "[]" "''https://example.org/latest.jpg''" fs0 cache_path
          "host0\<lparr>requests_get := \<lambda>u. Inr (Response 200 ''OK'' u [''JF'', ''IF''] None),
                 write_fault := \<lambda>n. if n = 1 then Some (OSError ''No space left on device'') else None\<rparr>"]
    download_image_turns_every_error_into_failure
      [of "[]" "''https://example.org/latest.jpg''" fs0 cache_path
          "host0\<lparr>requests_get := \<lambda>u. Inr (Response 200 ''OK'' u [''JFIF''] (Some (OtherException ''decode'')))\<rparr>"]
    download_image_turns_every_error_into_failure
      [of "[]" "''https://example.org/latest.jpg''" fs0 cache_path
          "host0\<lparr>requests_get := \<lambda>u. Inr (Response 200 ''OK'' u [''JF'', ''IF''] None)\<rparr>"]
  by (simp add: fetch_defs insert_commute)

end
